theory Spec2Isabelle
  imports Complex_Main "HOL-Library.Stream" "HOL-Library.Monad_Syntax"
begin

section \<open>The chart generator of generator.js\<close>

text \<open>
  The class \<open>ChartGenerator\<close> produces candle sequences from two sources of
  randomness: the generator's own seeded stream \<open>this.rng\<close> and the global
  \<open>Math.random\<close>. Both are modelled as streams of draws, read from the front.
  JavaScript numbers are modelled as real numbers: rounding, NaN and the infinities are
  not part of the model. Where the source guards a division (\<open>currentMcap || 1\<close>) or
  where a division by zero would change a comparison, the case is written out.
\<close>

subsection \<open>Draws and the two random sources\<close>

text \<open>A draw is a number in the half-open unit interval, as both sources return.\<close>

typedef draw = "{x::real. 0 \<le> x \<and> x < 1}"
  by (rule exI [of _ 0]) simp

setup_lifting type_definition_draw

lift_definition val :: "draw \<Rightarrow> real" is "\<lambda>x. x" .

lift_definition mkDraw :: "real \<Rightarrow> draw" is "\<lambda>x. if 0 \<le> x \<and> x < 1 then x else 0"
  by simp

text \<open>
  \<open>world\<close> is the mutable state outside the local variables of a call:
  \<open>rng\<close> is the state of \<open>this.rng\<close>, \<open>mathRandom\<close> the state of \<open>Math.random\<close>.
  The records of loop variables below extend it.
\<close>

record world =
  rng :: "draw stream"
  mathRandom :: "draw stream"

definition nextRng :: "'a world_scheme \<Rightarrow> real \<times> 'a world_scheme" where
  "nextRng w = (val (shd (rng w)), w\<lparr>rng := stl (rng w)\<rparr>)"

definition nextMathRandom :: "'a world_scheme \<Rightarrow> real \<times> 'a world_scheme" where
  "nextMathRandom w = (val (shd (mathRandom w)), w\<lparr>mathRandom := stl (mathRandom w)\<rparr>)"

text \<open>\<open>random(min, max)\<close> and \<open>randomInt(min, max)\<close>, on the seeded stream.\<close>

definition random :: "real \<Rightarrow> real \<Rightarrow> 'a world_scheme \<Rightarrow> real \<times> 'a world_scheme" where
  "random mn mx w = (let (r, w1) = nextRng w in (r * (mx - mn) + mn, w1))"

definition randomInt :: "int \<Rightarrow> int \<Rightarrow> 'a world_scheme \<Rightarrow> int \<times> 'a world_scheme" where
  "randomInt mn mx w =
     (let (r, w1) = nextRng w in (\<lfloor>r * real_of_int (mx - mn + 1)\<rfloor> + mn, w1))"

text \<open>
  The loop \<open>while (u === 0) u = this.rng()\<close> of \<open>gaussianRandom\<close>: it reads the seeded
  stream until a draw is not zero, and does not return when every draw is zero
  (the value \<open>None\<close>).
\<close>

partial_function (option) nonzeroRng :: "draw stream \<Rightarrow> (real \<times> draw stream) option" where
  "nonzeroRng s =
     (if val (shd s) = 0 then nonzeroRng (stl s) else Some (val (shd s), stl s))"

definition gaussianRandom :: "'a world_scheme \<Rightarrow> (real \<times> 'a world_scheme) option" where
  "gaussianRandom w =
     do {
       (u, s1) \<leftarrow> nonzeroRng (rng w);
       (v, s2) \<leftarrow> nonzeroRng s1;
       Some (sqrt (- 2 * ln u) * cos (2 * pi * v), w\<lparr>rng := s2\<rparr>)
     }"

subsection \<open>Candles, phases and the generator object\<close>

record candle =
  c_open :: real
  c_high :: real
  c_low :: real
  c_close :: real
  c_volume :: real

record timedCandle = candle +
  time :: int

record phase =
  ph_name :: string
  ph_start :: real
  ph_end :: real
  ph_bias :: real
  ph_volMult :: real

record generator =
  INITIAL_MCAP :: real
  BONDING_MCAP :: real
  TOKEN_SUPPLY :: real
  marketPhases :: "phase list"

text \<open>The object the constructor builds (its seed and stream are in \<open>world\<close>).\<close>

definition ChartGenerator :: generator where
  "ChartGenerator =
     \<lparr>INITIAL_MCAP = 5000, BONDING_MCAP = 100000, TOKEN_SUPPLY = 1000000000,
      marketPhases =
        [\<lparr>ph_name = ''early_accumulation'', ph_start = 0.0, ph_end = 0.15,
          ph_bias = 0.002, ph_volMult = 0.6\<rparr>,
         \<lparr>ph_name = ''consolidation'', ph_start = 0.15, ph_end = 0.35,
          ph_bias = 0.0, ph_volMult = 0.4\<rparr>,
         \<lparr>ph_name = ''pullback'', ph_start = 0.35, ph_end = 0.45,
          ph_bias = - 0.003, ph_volMult = 1.3\<rparr>,
         \<lparr>ph_name = ''recovery'', ph_start = 0.45, ph_end = 0.65,
          ph_bias = 0.001, ph_volMult = 1.1\<rparr>,
         \<lparr>ph_name = ''breakout'', ph_start = 0.65, ph_end = 0.8,
          ph_bias = 0.003, ph_volMult = 1.4\<rparr>,
         \<lparr>ph_name = ''final_push'', ph_start = 0.8, ph_end = 1.0,
          ph_bias = 0.008, ph_volMult = 1.5\<rparr>]\<rparr>"

text \<open>\<open>ss.mean\<close> of simple-statistics, used on two-element arrays only.\<close>

definition mean :: "real list \<Rightarrow> real" where
  "mean xs = sum_list xs / real (length xs)"

text \<open>
  \<open>volMap[volatility] || dflt\<close>: the table entry, or the default when the key is
  missing or the entry is zero.
\<close>

definition lookupOr :: "(string \<times> real) list \<Rightarrow> string \<Rightarrow> real \<Rightarrow> real" where
  "lookupOr volMap volatility dflt =
     (case map_of volMap volatility of
        None \<Rightarrow> dflt
      | Some x \<Rightarrow> if x = 0 then dflt else x)"

subsection \<open>Loops that push one candle per iteration\<close>

text \<open>
  \<open>forWhile guard body i k st\<close> is the loop
  \<open>for (; i < i + k && guard; i++) { candles.push(body(i)) }\<close>: \<open>k\<close> is the number of
  indices left, \<open>st\<close> holds the variables the body updates, and the result lists the
  candles pushed, in order. A body that does not return stops the loop with \<open>None\<close>.
\<close>

fun forWhile ::
  "('st \<Rightarrow> bool) \<Rightarrow> (nat \<Rightarrow> 'st \<Rightarrow> (candle \<times> 'st) option) \<Rightarrow> nat \<Rightarrow> nat \<Rightarrow> 'st
     \<Rightarrow> (candle list \<times> 'st) option" where
  "forWhile guard body i 0 st = Some ([], st)"
| "forWhile guard body i (Suc k) st =
     (if guard st then
        (case body i st of
           None \<Rightarrow> None
         | Some (c, st1) \<Rightarrow>
             (case forWhile guard body (Suc i) k st1 of
                None \<Rightarrow> None
              | Some (cs, st2) \<Rightarrow> Some (c # cs, st2)))
      else Some ([], st))"

definition forLoop ::
  "(nat \<Rightarrow> 'st \<Rightarrow> (candle \<times> 'st) option) \<Rightarrow> nat \<Rightarrow> 'st \<Rightarrow> (candle list \<times> 'st) option" where
  "forLoop body n st = forWhile (\<lambda>_. True) body 0 n st"

subsection \<open>generatePreBonding\<close>

record mcapState = world +
  currentMcap :: real

record volState = mcapState +
  volumeAvg :: real

record preState = volState +
  shortTermMomentum :: real
  longTermMemory :: real

text \<open>
  \<open>phases.find(p => progress >= p.start && progress < p.end) || phases[phases.length - 1]\<close>;
  reading a field of the result fails on an empty table (\<open>None\<close>).
\<close>

definition findPhase :: "real \<Rightarrow> phase list \<Rightarrow> phase option" where
  "findPhase progress phases =
     (case List.find (\<lambda>p. progress \<ge> ph_start p \<and> progress < ph_end p) phases of
        Some p \<Rightarrow> Some p
      | None \<Rightarrow> if phases = [] then None else Some (last phases))"

definition expectedMcap :: "generator \<Rightarrow> int \<Rightarrow> nat \<Rightarrow> real" where
  "expectedMcap this numCandles i =
     (let expectedProgress = real i / (real_of_int numCandles - 1);
          zonePeak = BONDING_MCAP this * 0.4;
          zoneProgress = min (expectedProgress * 1.0) 1.0
      in INITIAL_MCAP this + (zonePeak - INITIAL_MCAP this) * zoneProgress)"

text \<open>
  The breakout test and the mean-reversion term \<open>marketMemory\<close> of one step
  (source lines 262 to 271); \<open>currentMcap || 1\<close> is 1 when \<open>currentMcap\<close> is zero.
\<close>

definition hasBrokenOut :: "generator \<Rightarrow> int \<Rightarrow> nat \<Rightarrow> real \<Rightarrow> bool" where
  "hasBrokenOut this numCandles i mcap =
     (let breakoutThreshold = expectedMcap this numCandles i * 1.5
      in mcap > breakoutThreshold)"

definition marketMemory :: "generator \<Rightarrow> int \<Rightarrow> nat \<Rightarrow> real \<Rightarrow> real" where
  "marketMemory this numCandles i mcap =
     (if \<not> hasBrokenOut this numCandles i mcap then
        (let deviationPercent =
               (expectedMcap this numCandles i - mcap) / \<bar>if mcap = 0 then 1 else mcap\<bar>
         in deviationPercent * 0.008)
      else 0)"

text \<open>
  Each loop body below is written in two parts: a function of the values drawn, holding
  the arithmetic of the source lines in their order, and the body itself, which takes
  the draws from the two sources in the order the source takes them and passes them on.
\<close>

text \<open>\<open>totalChangePercent\<close> (source lines 239 to 280).\<close>

definition preTotalChange ::
  "generator \<Rightarrow> int \<Rightarrow> nat \<Rightarrow> real \<Rightarrow> real \<Rightarrow> real \<Rightarrow> real \<Rightarrow> real \<Rightarrow> real" where
  "preTotalChange this numCandles i baseVolatility g1 momentum memory mcap =
     (let randomShock = g1 * baseVolatility;
          momentumInfluence = momentum * 0.2;
          memoryInfluence = memory * 0.05;
          cyclePosition = sin (real i * 0.05) * 0.5;
          cycleInfluence = cyclePosition * baseVolatility * 0.2
      in randomShock + momentumInfluence + memoryInfluence + cycleInfluence
           + marketMemory this numCandles i mcap)"

text \<open>The candle of one step (source lines 286 to 333).\<close>

definition preCandle :: "generator \<Rightarrow> real \<Rightarrow> real \<Rightarrow> real \<Rightarrow> real \<Rightarrow> real \<Rightarrow> candle" where
  "preCandle this mcap totalChangePercent r g2 vAvg =
     (let open = mcap;
          close0 = open * (1 + totalChangePercent);
          preBondingCeiling = BONDING_MCAP this * 1000;
          close = (if close0 > preBondingCeiling then preBondingCeiling else close0);
          bodySize = \<bar>close - open\<bar>;
          wickMultiplier = 0.5 + r * 0.8;
          highWick = bodySize * wickMultiplier;
          lowWick = bodySize * wickMultiplier * 0.85;
          high0 = max open close + highWick;
          low0 = min open close - lowWick;
          maxSwing = max (bodySize * 1.5) (mcap * 0.05);
          high1 = min high0 (open + maxSwing);
          low1 = max low0 (open - maxSwing);
          high = min high1 preBondingCeiling;
          low = max low1 0;
          baseVolume = vAvg;
          volumeMultiplier = 1 + \<bar>totalChangePercent\<bar> * 3;
          volumeNoise = g2 * 0.3;
          volume = max 10000 (baseVolume * volumeMultiplier * (1 + volumeNoise))
      in \<lparr>c_open = open, c_high = high, c_low = low, c_close = close, c_volume = volume\<rparr>)"

definition preBondingBody ::
  "generator \<Rightarrow> real \<Rightarrow> int \<Rightarrow> nat \<Rightarrow> preState \<Rightarrow> (candle \<times> preState) option" where
  "preBondingBody this vol numCandles i st =
     do {
       let progress = real i / (real_of_int numCandles - 1);
       currentPhase \<leftarrow> findPhase progress (marketPhases this);
       let baseVolatility = vol * ph_volMult currentPhase;
       (g1, st1) \<leftarrow> gaussianRandom st;
       let totalChangePercent =
             preTotalChange this numCandles i baseVolatility g1
               (shortTermMomentum st) (longTermMemory st) (currentMcap st);
       let (r, st2) = nextRng st1;
       (g2, st3) \<leftarrow> gaussianRandom st2;
       let c = preCandle this (currentMcap st) totalChangePercent r g2 (volumeAvg st);
       Some (c, st3\<lparr>shortTermMomentum := shortTermMomentum st * 0.85 + totalChangePercent * 0.15,
                    longTermMemory := longTermMemory st * 0.97 + totalChangePercent * 0.03,
                    volumeAvg := volumeAvg st * 0.98 + c_volume c * 0.02,
                    currentMcap := c_close c\<rparr>)
     }"

definition generatePreBonding ::
  "generator \<Rightarrow> string \<Rightarrow> world \<Rightarrow> (candle list \<times> world) option" where
  "generatePreBonding this volatility w =
     (let (numCandles, w1) = randomInt 150 400 w;
          volMap = [(''low'', 0.08), (''medium'', 0.15), (''high'', 0.25), (''extreme'', 0.35)];
          vol = lookupOr volMap volatility 0.15;
          st0 = \<lparr>rng = rng w1, mathRandom = mathRandom w1,
                 currentMcap = INITIAL_MCAP this,
                 volumeAvg = mean [50000, 150000],
                 shortTermMomentum = 0, longTermMemory = 0\<rparr>
      in case forLoop (preBondingBody this vol numCandles) (nat numCandles) st0 of
           None \<Rightarrow> None
         | Some (candles, st) \<Rightarrow> Some (candles, \<lparr>rng = rng st, mathRandom = mathRandom st\<rparr>))"

subsection \<open>generateOrganic\<close>

definition organicChange :: "generator \<Rightarrow> real \<Rightarrow> nat \<Rightarrow> real \<Rightarrow> real \<Rightarrow> real" where
  "organicChange this vol i mcap g1 =
     (let meanReversionLevel = BONDING_MCAP this;
          meanReversionSpeed = 0.05;
          deviation = (mcap - meanReversionLevel) / meanReversionLevel;
          meanReversionForce = - deviation * meanReversionSpeed;
          diffusion = g1 * vol;
          organicDrift = 0.0005;
          cycle = sin (real i * 0.02) * vol * 0.2
      in meanReversionForce + diffusion + organicDrift + cycle)"

definition organicCandle ::
  "generator \<Rightarrow> real \<Rightarrow> real \<Rightarrow> real \<Rightarrow> real \<Rightarrow> real \<Rightarrow> real \<Rightarrow> real \<Rightarrow> candle" where
  "organicCandle this mcap change r1 r2 r3 g2 vAvg =
     (let open = mcap;
          close0 = open * (1 + change);
          close = (if close0 > BONDING_MCAP this then BONDING_MCAP this else close0);
          bodySize = \<bar>close - open\<bar>;
          wickMultipliers = [0.2, 0.4, 0.6, 0.8];
          wickMultiplier = wickMultipliers ! nat \<lfloor>r1 * real (length wickMultipliers)\<rfloor>;
          high0 = max open close + bodySize * wickMultiplier * r2;
          low0 = min open close - bodySize * wickMultiplier * r3 * 0.7;
          high = min high0 (BONDING_MCAP this * 1.005);
          low = max low0 (mcap * 0.9);
          baseVolume = vAvg;
          volumeMultiplier = 1 + \<bar>change\<bar> * 2;
          volumeNoise = g2 * 0.25;
          volume = max 15000 (baseVolume * volumeMultiplier * (1 + volumeNoise))
      in \<lparr>c_open = open, c_high = high, c_low = low, c_close = close, c_volume = volume\<rparr>)"

definition organicBody ::
  "generator \<Rightarrow> real \<Rightarrow> nat \<Rightarrow> volState \<Rightarrow> (candle \<times> volState) option" where
  "organicBody this vol i st =
     do {
       (g1, st1) \<leftarrow> gaussianRandom st;
       let change = organicChange this vol i (currentMcap st) g1;
       let (r1, st2) = nextRng st1;
       let (r2, st3) = nextRng st2;
       let (r3, st4) = nextRng st3;
       (g2, st5) \<leftarrow> gaussianRandom st4;
       let c = organicCandle this (currentMcap st) change r1 r2 r3 g2 (volumeAvg st);
       Some (c, st5\<lparr>volumeAvg := volumeAvg st * 0.99 + c_volume c * 0.01,
                    currentMcap := c_close c\<rparr>)
     }"

definition generateOrganic ::
  "generator \<Rightarrow> real \<Rightarrow> int \<Rightarrow> string \<Rightarrow> world \<Rightarrow> (candle list \<times> world) option" where
  "generateOrganic this startMcap numCandles volatility w =
     (let volMap = [(''low'', 0.012), (''medium'', 0.02), (''high'', 0.03), (''extreme'', 0.04)];
          vol = lookupOr volMap volatility 0.02;
          st0 = \<lparr>rng = rng w, mathRandom = mathRandom w, currentMcap = startMcap,
                 volumeAvg = mean [80000, 120000]\<rparr>
      in case forLoop (organicBody this vol) (nat numCandles) st0 of
           None \<Rightarrow> None
         | Some (candles, st) \<Rightarrow> Some (candles, \<lparr>rng = rng st, mathRandom = mathRandom st\<rparr>))"

subsection \<open>generatePumpDump\<close>

record pdPhase =
  pd_name :: string
  pd_duration :: int
  pd_drift :: real
  pd_volMult :: real

record pumpState = volState +
  candleCount :: nat

text \<open>
  The unused local \<open>progress\<close> is left out. \<open>distanceToCeiling < 0.05\<close> is false in the
  source when \<open>currentMcap\<close> is zero (the quotient is infinite), which is written out.
\<close>

definition pumpDumpChange :: "generator \<Rightarrow> real \<Rightarrow> pdPhase \<Rightarrow> real \<Rightarrow> real \<Rightarrow> real" where
  "pumpDumpChange this vol ph mcap g1 =
     (let phaseDrift =
            (if pd_name ph = ''pump''
                \<and> mcap \<noteq> 0 \<and> (BONDING_MCAP this - mcap) / mcap < 0.05
             then pd_drift ph * 0.3 else pd_drift ph);
          noise = g1 * vol * pd_volMult ph
      in phaseDrift + noise)"

definition pumpDumpCandle ::
  "generator \<Rightarrow> pdPhase \<Rightarrow> real \<Rightarrow> real \<Rightarrow> real \<Rightarrow> real \<Rightarrow> real \<Rightarrow> real \<Rightarrow> real \<Rightarrow> candle" where
  "pumpDumpCandle this ph mcap change close r2 r3 g2 vAvg =
     (let open = mcap;
          bodySize = \<bar>close - open\<bar>;
          wickMultiplier = pd_volMult ph * 0.8;
          high0 = max open close + bodySize * wickMultiplier * r2;
          low0 = min open close - bodySize * wickMultiplier * r3 * 0.6;
          high = min high0 (BONDING_MCAP this * 1.01);
          low = max low0 (mcap * 0.85);
          baseVolume = vAvg * pd_volMult ph;
          volumeMultiplier = 1 + \<bar>change\<bar> * 4;
          volumeNoise = g2 * 0.4;
          volume = max 20000 (baseVolume * volumeMultiplier * (1 + volumeNoise))
      in \<lparr>c_open = open, c_high = high, c_low = low, c_close = close, c_volume = volume\<rparr>)"

text \<open>
  The close of a pump-and-dump candle (source lines 498 to 508): a close above the
  ceiling is set to the ceiling, and in the pump phase to the ceiling times a factor
  drawn from the seeded stream.
\<close>

definition pumpDumpClose ::
  "generator \<Rightarrow> pdPhase \<Rightarrow> real \<Rightarrow> 'a world_scheme \<Rightarrow> real \<times> 'a world_scheme" where
  "pumpDumpClose this ph close0 st =
     (if close0 > BONDING_MCAP this then
        (if pd_name ph = ''pump'' then
           (let (r, st1) = nextRng st in (BONDING_MCAP this * (0.995 + r * 0.01), st1))
         else (BONDING_MCAP this, st))
      else (close0, st))"

definition pumpDumpBody ::
  "generator \<Rightarrow> real \<Rightarrow> pdPhase \<Rightarrow> nat \<Rightarrow> pumpState \<Rightarrow> (candle \<times> pumpState) option" where
  "pumpDumpBody this vol ph i st =
     do {
       (g1, st1) \<leftarrow> gaussianRandom st;
       let change = pumpDumpChange this vol ph (currentMcap st) g1;
       let open = currentMcap st;
       let close0 = open * (1 + change);
       let (close, st2) = pumpDumpClose this ph close0 st1;
       let (r2, st3) = nextRng st2;
       let (r3, st4) = nextRng st3;
       (g2, st5) \<leftarrow> gaussianRandom st4;
       let c = pumpDumpCandle this ph (currentMcap st) change close r2 r3 g2 (volumeAvg st);
       Some (c, st5\<lparr>volumeAvg := volumeAvg st * 0.98 + c_volume c * 0.02,
                    currentMcap := c_close c,
                    candleCount := candleCount st + 1\<rparr>)
     }"

definition pumpDumpPhases :: "int \<Rightarrow> pdPhase list" where
  "pumpDumpPhases numCandles =
     [\<lparr>pd_name = ''accumulation'', pd_duration = \<lfloor>real_of_int numCandles * 0.25\<rfloor>,
       pd_drift = 0.002, pd_volMult = 0.8\<rparr>,
      \<lparr>pd_name = ''pump'', pd_duration = \<lfloor>real_of_int numCandles * 0.25\<rfloor>,
       pd_drift = 0.008, pd_volMult = 2.0\<rparr>,
      \<lparr>pd_name = ''distribution'', pd_duration = \<lfloor>real_of_int numCandles * 0.15\<rfloor>,
       pd_drift = - 0.001, pd_volMult = 1.5\<rparr>,
      \<lparr>pd_name = ''dump'', pd_duration = \<lfloor>real_of_int numCandles * 0.35\<rfloor>,
       pd_drift = - 0.015, pd_volMult = 2.5\<rparr>]"

text \<open>
  The outer loop \<open>for (const phase of phases)\<close>; the inner loop runs while
  \<open>i < phase.duration && candleCount < numCandles\<close>.
\<close>

fun pumpDumpLoop ::
  "generator \<Rightarrow> real \<Rightarrow> int \<Rightarrow> pdPhase list \<Rightarrow> pumpState
     \<Rightarrow> (candle list \<times> pumpState) option" where
  "pumpDumpLoop this vol numCandles [] st = Some ([], st)"
| "pumpDumpLoop this vol numCandles (ph # phs) st =
     (case forWhile (\<lambda>s. int (candleCount s) < numCandles) (pumpDumpBody this vol ph)
             0 (nat (pd_duration ph)) st of
        None \<Rightarrow> None
      | Some (cs1, st1) \<Rightarrow>
          (case pumpDumpLoop this vol numCandles phs st1 of
             None \<Rightarrow> None
           | Some (cs2, st2) \<Rightarrow> Some (cs1 @ cs2, st2)))"

definition generatePumpDump ::
  "generator \<Rightarrow> real \<Rightarrow> int \<Rightarrow> string \<Rightarrow> world \<Rightarrow> (candle list \<times> world) option" where
  "generatePumpDump this startMcap numCandles volatility w =
     (let volMap = [(''low'', 0.025), (''medium'', 0.035), (''high'', 0.045), (''extreme'', 0.055)];
          vol = lookupOr volMap volatility 0.035;
          st0 = \<lparr>rng = rng w, mathRandom = mathRandom w, currentMcap = startMcap,
                 volumeAvg = mean [100000, 150000], candleCount = 0\<rparr>
      in case pumpDumpLoop this vol numCandles (pumpDumpPhases numCandles) st0 of
           None \<Rightarrow> None
         | Some (candles, st) \<Rightarrow> Some (candles, \<lparr>rng = rng st, mathRandom = mathRandom st\<rparr>))"

subsection \<open>generateInstantRug\<close>

text \<open>
  \<open>change\<close> and \<open>volume\<close> of one step (source lines 557 to 569): one draw of each source
  in every branch.
\<close>

definition instantRugChange ::
  "real \<Rightarrow> int \<Rightarrow> nat \<Rightarrow> 'a world_scheme \<Rightarrow> real \<times> real \<times> 'a world_scheme" where
  "instantRugChange vol rugPoint i st =
     (if int i < rugPoint then
        (let (x, st1) = random (- vol * 0.5) (vol * 1.5) st;
             (m, st2) = nextMathRandom st1
         in (x, 100000 + m * 50000, st2))
      else if int i = rugPoint then
        (let (x, st1) = random 0.85 0.95 st;
             (m, st2) = nextMathRandom st1
         in (- x, 500000 + m * 500000, st2))
      else
        (let (x, st1) = random (- 0.001) 0.001 st;
             (m, st2) = nextMathRandom st1
         in (x, 1000 + m * 5000, st2)))"

definition instantRugCandle ::
  "generator \<Rightarrow> real \<Rightarrow> int \<Rightarrow> nat \<Rightarrow> real \<Rightarrow> real \<Rightarrow> real \<Rightarrow> real \<Rightarrow> real \<Rightarrow> candle" where
  "instantRugCandle this vol rugPoint i mcap change volume m3 m4 =
     (let open = mcap;
          close = max (INITIAL_MCAP this * 0.1) (open * (1 + change));
          wickFactor = (if int i = rugPoint then 0.2 else 0.5);
          wickSize = vol * mcap * wickFactor;
          high = max open close + m3 * wickSize;
          low = min open close - m4 * wickSize * 2
      in \<lparr>c_open = open, c_high = high, c_low = low, c_close = close, c_volume = volume\<rparr>)"

definition instantRugBody ::
  "generator \<Rightarrow> real \<Rightarrow> int \<Rightarrow> nat \<Rightarrow> mcapState \<Rightarrow> (candle \<times> mcapState) option" where
  "instantRugBody this vol rugPoint i st =
     (let (change, volume, st2) = instantRugChange vol rugPoint i st;
          (m3, st3) = nextMathRandom st2;
          (m4, st4) = nextMathRandom st3;
          c = instantRugCandle this vol rugPoint i (currentMcap st) change volume m3 m4
      in Some (c, st4\<lparr>currentMcap := c_close c\<rparr>))"

definition generateInstantRug ::
  "generator \<Rightarrow> real \<Rightarrow> int \<Rightarrow> string \<Rightarrow> world \<Rightarrow> (candle list \<times> world) option" where
  "generateInstantRug this startMcap numCandles volatility w =
     (let (rugPoint, w1) = randomInt 10 30 w;
          volMap = [(''low'', 0.01), (''medium'', 0.02), (''high'', 0.03), (''extreme'', 0.04)];
          vol = lookupOr volMap volatility 0.02;
          st0 = \<lparr>rng = rng w1, mathRandom = mathRandom w1, currentMcap = startMcap\<rparr>
      in case forLoop (instantRugBody this vol rugPoint) (nat numCandles) st0 of
           None \<Rightarrow> None
         | Some (candles, st) \<Rightarrow> Some (candles, \<lparr>rng = rng st, mathRandom = mathRandom st\<rparr>))"

subsection \<open>generateSlowBleed\<close>

definition slowBleedCandle ::
  "generator \<Rightarrow> real \<Rightarrow> real \<Rightarrow> real \<Rightarrow> real \<Rightarrow> real \<Rightarrow> real \<Rightarrow> real \<Rightarrow> candle" where
  "slowBleedCandle this vol progress mcap change m2 m3 m4 =
     (let open = mcap;
          close = max (INITIAL_MCAP this * 0.5) (open * (1 + change));
          wickSize = vol * mcap * 0.5;
          high = max open close + m2 * wickSize;
          low = min open close - m3 * wickSize;
          volume = 100000 - progress * 70000 + m4 * 30000
      in \<lparr>c_open = open, c_high = high, c_low = low, c_close = close, c_volume = volume\<rparr>)"

definition slowBleedBody ::
  "generator \<Rightarrow> real \<Rightarrow> int \<Rightarrow> real \<Rightarrow> nat \<Rightarrow> mcapState \<Rightarrow> (candle \<times> mcapState) option" where
  "slowBleedBody this vol numCandles baseDecline i st =
     do {
       let progress = real i / real_of_int numCandles;
       let decline = baseDecline * (1 + progress * 2);
       let (m1, st1) = nextMathRandom st;
       let hasRally = m1 < 0.08;
       (rally, st2) \<leftarrow>
          (if hasRally then
             do { (g, st') \<leftarrow> gaussianRandom st1; Some (\<bar>g\<bar> * vol * 2, st') }
           else Some (0, st1));
       (g2, st3) \<leftarrow> gaussianRandom st2;
       let noise = g2 * vol;
       let change = decline + noise + rally;
       let (m2, st4) = nextMathRandom st3;
       let (m3, st5) = nextMathRandom st4;
       let (m4, st6) = nextMathRandom st5;
       let c = slowBleedCandle this vol progress (currentMcap st) change m2 m3 m4;
       Some (c, st6\<lparr>currentMcap := c_close c\<rparr>)
     }"

definition generateSlowBleed ::
  "generator \<Rightarrow> real \<Rightarrow> int \<Rightarrow> string \<Rightarrow> world \<Rightarrow> (candle list \<times> world) option" where
  "generateSlowBleed this startMcap numCandles volatility w =
     (let volMap = [(''low'', 0.01), (''medium'', 0.015), (''high'', 0.02), (''extreme'', 0.025)];
          vol = lookupOr volMap volatility 0.015;
          (x, w1) = random 0.1 0.2 w;
          targetMcap = startMcap * x;
          totalDecline = ln (targetMcap / startMcap);
          baseDecline = totalDecline / real_of_int numCandles;
          st0 = \<lparr>rng = rng w1, mathRandom = mathRandom w1, currentMcap = startMcap\<rparr>
      in case forLoop (slowBleedBody this vol numCandles baseDecline) (nat numCandles) st0 of
           None \<Rightarrow> None
         | Some (candles, st) \<Rightarrow> Some (candles, \<lparr>rng = rng st, mathRandom = mathRandom st\<rparr>))"

subsection \<open>generateConsolidation\<close>

text \<open>\<open>change\<close> of one step (source lines 656 to 679), given the Gaussian value drawn.\<close>

definition consolidationChange ::
  "real \<Rightarrow> int \<Rightarrow> int \<Rightarrow> bool \<Rightarrow> real \<Rightarrow> nat \<Rightarrow> real \<Rightarrow> real \<Rightarrow> real" where
  "consolidationChange vol numCandles consolidationEnd breakoutUp rangeCenter i mcap g =
     (if int i < consolidationEnd then
        (let rangeProgress = real i / real_of_int consolidationEnd;
             rangeTightening = 1 - rangeProgress * 0.5;
             distFromCenter = (mcap - rangeCenter) / rangeCenter;
             pullToCenter = - distFromCenter * 0.1
         in pullToCenter + sin (real i * 0.15) * vol * rangeTightening + g * vol * 0.5)
      else
        (let breakoutProgress =
               (real i - real_of_int consolidationEnd)
                 / (real_of_int numCandles - real_of_int consolidationEnd);
             breakoutStrength = (if breakoutUp then 0.008 else - 0.008) * (1 + breakoutProgress)
         in breakoutStrength + g * vol))"

definition consolidationCandle ::
  "real \<Rightarrow> real \<Rightarrow> real \<Rightarrow> real \<Rightarrow> real \<Rightarrow> real \<Rightarrow> candle" where
  "consolidationCandle vol mcap change volume m3 m4 =
     (let open = mcap;
          close = open * (1 + change);
          wickSize = vol * mcap * 0.3;
          high = max open close + m3 * wickSize;
          low = min open close - m4 * wickSize
      in \<lparr>c_open = open, c_high = high, c_low = low, c_close = close, c_volume = volume\<rparr>)"

definition consolidationBody ::
  "real \<Rightarrow> int \<Rightarrow> int \<Rightarrow> bool \<Rightarrow> real \<Rightarrow> nat \<Rightarrow> mcapState \<Rightarrow> (candle \<times> mcapState) option" where
  "consolidationBody vol numCandles consolidationEnd breakoutUp rangeCenter i st =
     do {
       (g, st1) \<leftarrow> gaussianRandom st;
       let change =
             consolidationChange vol numCandles consolidationEnd breakoutUp rangeCenter i
               (currentMcap st) g;
       let (m, st2) = nextMathRandom st1;
       let volume = (if int i < consolidationEnd then 60000 + m * 40000 else 150000 + m * 100000);
       let (m3, st3) = nextMathRandom st2;
       let (m4, st4) = nextMathRandom st3;
       let c = consolidationCandle vol (currentMcap st) change volume m3 m4;
       Some (c, st4\<lparr>currentMcap := c_close c\<rparr>)
     }"

definition generateConsolidation ::
  "generator \<Rightarrow> real \<Rightarrow> int \<Rightarrow> string \<Rightarrow> world \<Rightarrow> (candle list \<times> world) option" where
  "generateConsolidation this startMcap numCandles volatility w =
     (let volMap = [(''low'', 0.008), (''medium'', 0.012), (''high'', 0.016), (''extreme'', 0.02)];
          vol = lookupOr volMap volatility 0.012;
          consolidationEnd = \<lfloor>real_of_int numCandles * 0.7\<rfloor>;
          (m, w1) = nextMathRandom w;
          breakoutUp = m > 0.5;
          rangeHigh = startMcap * 1.1;
          rangeLow = startMcap * 0.9;
          rangeCenter = (rangeHigh + rangeLow) / 2;
          st0 = \<lparr>rng = rng w1, mathRandom = mathRandom w1, currentMcap = startMcap\<rparr>
      in case forLoop (consolidationBody vol numCandles consolidationEnd breakoutUp rangeCenter)
                (nat numCandles) st0 of
           None \<Rightarrow> None
         | Some (candles, st) \<Rightarrow> Some (candles, \<lparr>rng = rng st, mathRandom = mathRandom st\<rparr>))"

subsection \<open>generatePostBonding, calculateMetadata and generate\<close>

definition generatePostBonding ::
  "generator \<Rightarrow> real \<Rightarrow> string \<Rightarrow> string \<Rightarrow> world \<Rightarrow> (candle list \<times> world) option" where
  "generatePostBonding this startMcap scenario volatility w =
     (let (numCandles, w1) = randomInt 500 1500 w
      in if scenario = ''organic'' then generateOrganic this startMcap numCandles volatility w1
         else if scenario = ''pump_dump'' then generatePumpDump this startMcap numCandles volatility w1
         else if scenario = ''instant_rug'' then generateInstantRug this startMcap numCandles volatility w1
         else if scenario = ''slow_bleed'' then generateSlowBleed this startMcap numCandles volatility w1
         else if scenario = ''consolidation'' then
           generateConsolidation this startMcap numCandles volatility w1
         else generateOrganic this startMcap numCandles volatility w1)"

record metadata =
  startMcap :: real
  finalMcap :: real
  peakMcap :: real
  minMcap :: real
  totalCandles :: nat

text \<open>\<open>Math.max(...xs)\<close> and \<open>Math.min(...xs)\<close> on a non-empty argument list.\<close>

fun mathMax :: "real \<Rightarrow> real list \<Rightarrow> real" where
  "mathMax x [] = x"
| "mathMax x (y # ys) = mathMax (if y > x then y else x) ys"

fun mathMin :: "real \<Rightarrow> real list \<Rightarrow> real" where
  "mathMin x [] = x"
| "mathMin x (y # ys) = mathMin (if y < x then y else x) ys"

text \<open>The empty object \<open>{}\<close> is \<open>None\<close>.\<close>

definition calculateMetadata :: "candle list \<Rightarrow> metadata option" where
  "calculateMetadata dat =
     (if length dat = 0 then None
      else
        (let marketCaps = map c_close dat
         in Some \<lparr>startMcap = marketCaps ! 0,
                  finalMcap = marketCaps ! (length marketCaps - 1),
                  peakMcap = mathMax (hd marketCaps) (tl marketCaps),
                  minMcap = mathMin (hd marketCaps) (tl marketCaps),
                  totalCandles = length dat\<rparr>))"

record options =
  chartType :: "string option"
  scenario :: "string option"
  volatility :: "string option"

text \<open>
  The result object. The identifier string is built from the clock and one draw of
  \<open>Math.random\<close>; the model keeps the two parts instead of the formatted string.
\<close>

record result =
  res_id :: "int \<times> real"
  res_scenario :: string
  res_data :: "timedCandle list"
  res_metadata :: "metadata option"

definition withDefault :: "string option \<Rightarrow> string \<Rightarrow> string" where
  "withDefault v d = (case v of None \<Rightarrow> d | Some x \<Rightarrow> x)"

text \<open>
  The conversion of the source's last step,
  \<open>data.map((candle, i) => ({time: now - (data.length - i) * 60, ...}))\<close>.
\<close>

definition timestamped :: "int \<Rightarrow> candle list \<Rightarrow> timedCandle list" where
  "timestamped nowS dat =
     map (\<lambda>(candle, i).
            \<lparr>c_open = c_open candle, c_high = c_high candle, c_low = c_low candle,
             c_close = c_close candle, c_volume = c_volume candle,
             time = nowS - (int (length dat) - int i) * 60\<rparr>)
         (zip dat [0 ..< length dat])"

text \<open>
  \<open>now\<close> is the clock in milliseconds; both reads of \<open>Date.now()\<close> in one call are
  taken at the same instant. The logging block of the source changes no variable and
  is left out.
\<close>

definition generate ::
  "generator \<Rightarrow> options \<Rightarrow> int \<Rightarrow> world \<Rightarrow> (result \<times> world) option" where
  "generate this opts now w =
     do {
       let chartTypeV = withDefault (chartType opts) ''full'';
       let scenarioV = withDefault (scenario opts) ''random'';
       let volatilityV = withDefault (volatility opts) ''medium'';
       let scenarios = [''organic'', ''pump_dump'', ''instant_rug'', ''slow_bleed'', ''consolidation''];
       let (finalScenario, w1) =
             (if scenarioV = ''random'' then
                (let (m, w') = nextMathRandom w
                 in (scenarios ! nat \<lfloor>m * real (length scenarios)\<rfloor>, w'))
              else (scenarioV, w));
       let (m2, w2) = nextMathRandom w1;
       let data0 = [];
       (data1, w3) \<leftarrow>
          (if chartTypeV = ''full'' \<or> chartTypeV = ''pre'' then
             do { (preBonding, w') \<leftarrow> generatePreBonding this volatilityV w2;
                  Some (data0 @ preBonding, w') }
           else Some (data0, w2));
       (data2, w4) \<leftarrow>
          (if chartTypeV = ''full'' \<or> chartTypeV = ''post'' then
             do { let startMcapV =
                        (if length data1 > 0 then c_close (data1 ! (length data1 - 1))
                         else BONDING_MCAP this);
                  (postBonding, w') \<leftarrow> generatePostBonding this startMcapV finalScenario volatilityV w3;
                  Some (data1 @ postBonding, w') }
           else Some (data1, w3));
       let nowS = now div 1000;
       Some (\<lparr>res_id = (now, m2), res_scenario = finalScenario,
               res_data = timestamped nowS data2,
               res_metadata = calculateMetadata data2\<rparr>, w4)
     }"


section \<open>Predicates used in the statements\<close>

text \<open>
  \<open>chainFrom x cs\<close>: the first candle opens at \<open>x\<close> and every later candle opens at
  the close of the one before. \<open>lastClose x cs\<close> is the close of the last candle, or
  \<open>x\<close> when there is none.
\<close>

fun chainFrom :: "real \<Rightarrow> candle list \<Rightarrow> bool" where
  "chainFrom x [] = True"
| "chainFrom x (c # cs) = (c_open c = x \<and> chainFrom (c_close c) cs)"

definition lastClose :: "real \<Rightarrow> candle list \<Rightarrow> real" where
  "lastClose x cs = (if cs = [] then x else c_close (last cs))"

text \<open>A seeded stream on which \<open>gaussianRandom\<close> never has to skip a draw.\<close>

definition noZero :: "draw stream \<Rightarrow> bool" where
  "noZero s = (\<forall>d\<in>sset s. val d \<noteq> 0)"

text \<open>The world in which every draw of both sources is one half.\<close>

definition halfWorld :: world where
  "halfWorld = \<lparr>rng = sconst (mkDraw (1/2)), mathRandom = sconst (mkDraw (1/2))\<rparr>"


text \<open>
  The two conditional segments of \<open>generate\<close> (source lines 111 to 114 and 169 to 179),
  named so that \<open>generate\<close> can be unfolded in one step.
\<close>

definition preStage :: "generator \<Rightarrow> string \<Rightarrow> string \<Rightarrow> world \<Rightarrow> (candle list \<times> world) option" where
  "preStage this ct vol w2 =
     (if ct = ''full'' \<or> ct = ''pre'' then
        Option.bind (generatePreBonding this vol w2) (\<lambda>(preBonding, w'). Some ([] @ preBonding, w'))
      else Some ([], w2))"

definition postStage ::
  "generator \<Rightarrow> string \<Rightarrow> string \<Rightarrow> string \<Rightarrow> candle list \<Rightarrow> world \<Rightarrow> (candle list \<times> world) option" where
  "postStage this ct fs vol data1 w3 =
     (if ct = ''full'' \<or> ct = ''post'' then
        Option.bind
          (generatePostBonding this
             (if length data1 > 0 then c_close (data1 ! (length data1 - 1)) else BONDING_MCAP this)
             fs vol w3)
          (\<lambda>(postBonding, w'). Some (data1 @ postBonding, w'))
      else Some (data1, w3))"

text \<open>Two phase descriptors that agree on every field except \<open>bias\<close>.\<close>

definition samePhase :: "phase \<Rightarrow> phase \<Rightarrow> bool" where
  "samePhase p q \<longleftrightarrow>
     ph_name p = ph_name q \<and> ph_start p = ph_start q \<and> ph_end p = ph_end q
       \<and> ph_volMult p = ph_volMult q"







definition drop501World :: world where
  "drop501World = \<lparr>rng = mkDraw (3/2048) ## sconst (mkDraw (1/2)),
                     mathRandom = sconst (mkDraw (1/2))\<rparr>"

definition threeQuarterWorld :: world where
  "threeQuarterWorld = \<lparr>rng = sconst (mkDraw (3/4)), mathRandom = sconst (mkDraw (1/2))\<rparr>"

definition quarterNoiseWorld :: world where
  "quarterNoiseWorld = \<lparr>rng = sconst (mkDraw (1/2)), mathRandom = sconst (mkDraw (1/4))\<rparr>"

definition lowWorld :: world where
  "lowWorld = \<lparr>rng = [mkDraw (1/2), mkDraw (1/1024)] @- sconst (mkDraw (1/2)),
                mathRandom = sconst (mkDraw (1/2))\<rparr>"


section \<open>Draws, loops and the shape of a run\<close>

lemma val_ge0 [simp]: "0 \<le> val d" by transfer simp
lemma val_lt1 [simp]: "val d < 1" by transfer simp
lemma val_mkDraw: "0 \<le> x \<Longrightarrow> x < 1 \<Longrightarrow> val (mkDraw x) = x" by transfer simp

lemma noZero_stl: "noZero s \<Longrightarrow> noZero (stl s)"
  unfolding noZero_def by (auto dest: stl_sset)
lemma noZero_shd: "noZero s \<Longrightarrow> val (shd s) \<noteq> 0"
  unfolding noZero_def by (simp add: shd_sset)

lemma nonzeroRng_noZero: "noZero s \<Longrightarrow> nonzeroRng s = Some (val (shd s), stl s)"
  by (subst nonzeroRng.simps) (simp add: noZero_shd)

lemma gaussianRandom_noZero:
  "noZero (rng w) \<Longrightarrow>
   gaussianRandom w = Some (sqrt (- 2 * ln (val (shd (rng w)))) * cos (2 * pi * val (shd (stl (rng w)))), w\<lparr>rng := stl (stl (rng w))\<rparr>)"
  by (simp add: gaussianRandom_def nonzeroRng_noZero noZero_stl)

lemma gaussianRandom_frame:
  "gaussianRandom w = Some (g, w') \<Longrightarrow> \<exists>s. w' = w\<lparr>rng := s\<rparr>"
  by (auto simp: gaussianRandom_def split: bind_splits)

lemma forWhile_chain:
  fixes body :: "nat \<Rightarrow> 'a mcapState_scheme \<Rightarrow> (candle \<times> 'a mcapState_scheme) option"
  assumes step: "\<And>i st c st'. body i st = Some (c, st') \<Longrightarrow> c_open c = currentMcap st \<and> currentMcap st' = c_close c"
  shows "forWhile g body i k st = Some (cs, st') \<Longrightarrow>
     chainFrom (currentMcap st) cs \<and> currentMcap st' = lastClose (currentMcap st) cs"
proof (induction k arbitrary: i st cs st')
  case 0
  then show ?case by (simp add: lastClose_def)
next
  case (Suc k)
  show ?case
  proof (cases "g st")
    case False
    with Suc.prems show ?thesis by (simp add: lastClose_def)
  next
    case True
    with Suc.prems obtain c st1 cs1 where
      b: "body i st = Some (c, st1)" and
      r: "forWhile g body (Suc i) k st1 = Some (cs1, st')" and
      cs: "cs = c # cs1"
      by (auto split: option.splits prod.splits)
    from step[OF b] Suc.IH[OF r] cs show ?thesis
      by (auto simp: lastClose_def)
  qed
qed

lemma preCandle_open [simp]: "c_open (preCandle this mcap t r g2 v) = mcap"
  by (simp add: preCandle_def Let_def)
lemma organicCandle_open [simp]: "c_open (organicCandle this mcap ch r1 r2 r3 g2 v) = mcap"
  by (simp add: organicCandle_def Let_def)
lemma pumpDumpCandle_open [simp]: "c_open (pumpDumpCandle this ph mcap ch cl r2 r3 g2 v) = mcap"
  by (simp add: pumpDumpCandle_def Let_def)
lemma instantRugCandle_open [simp]: "c_open (instantRugCandle this vol rp i mcap ch v m3 m4) = mcap"
  by (simp add: instantRugCandle_def Let_def)
lemma slowBleedCandle_open [simp]: "c_open (slowBleedCandle this vol p mcap ch m2 m3 m4) = mcap"
  by (simp add: slowBleedCandle_def Let_def)
lemma consolidationCandle_open [simp]: "c_open (consolidationCandle vol mcap ch v m3 m4) = mcap"
  by (simp add: consolidationCandle_def Let_def)



lemma pumpDumpBody_step:
  "pumpDumpBody this vol ph i st = Some (c, st') \<Longrightarrow>
     c_open c = currentMcap st \<and> currentMcap st' = c_close c"
  unfolding pumpDumpBody_def
  by (auto simp: Let_def nextRng_def split: bind_splits prod.splits dest!: gaussianRandom_frame)




lemma chainFrom_append:
  "chainFrom x (cs @ ds) = (chainFrom x cs \<and> chainFrom (lastClose x cs) ds)"
  by (induction cs arbitrary: x) (auto simp: lastClose_def)

lemma lastClose_append:
  "lastClose x (cs @ ds) = lastClose (lastClose x cs) ds"
  by (simp add: lastClose_def)










lemma pumpDumpBody_count:
  "pumpDumpBody this vol ph i st = Some (c, st') \<Longrightarrow> candleCount st' = candleCount st + 1"
  unfolding pumpDumpBody_def
  by (auto simp: Let_def split: bind_splits prod.splits)

lemma forWhile_count:
  fixes body :: "nat \<Rightarrow> pumpState \<Rightarrow> (candle \<times> pumpState) option"
  assumes step: "\<And>i st c st'. body i st = Some (c, st') \<Longrightarrow> candleCount st' = candleCount st + 1"
  shows "forWhile (\<lambda>s. int (candleCount s) < n) body i k st = Some (cs, st') \<Longrightarrow>
     candleCount st' = candleCount st + length cs \<and>
     length cs = min k (nat (n - int (candleCount st)))"
proof (induction k arbitrary: i st cs st')
  case 0
  then show ?case by simp
next
  case (Suc k)
  show ?case
  proof (cases "int (candleCount st) < n")
    case False
    with Suc.prems show ?thesis by simp
  next
    case True
    with Suc.prems obtain c st1 cs1 where
      b: "body i st = Some (c, st1)" and
      r: "forWhile (\<lambda>s. int (candleCount s) < n) body (Suc i) k st1 = Some (cs1, st')" and
      cs: "cs = c # cs1"
      by (auto split: option.splits prod.splits)
    from step[OF b] Suc.IH[OF r] cs True show ?thesis
      by auto
  qed
qed

lemma pumpDumpLoop_chain:
  "pumpDumpLoop this vol n phs st = Some (cs, st') \<Longrightarrow>
     chainFrom (currentMcap st) cs \<and> currentMcap st' = lastClose (currentMcap st) cs"
proof (induction phs arbitrary: st cs st')
  case Nil
  then show ?case by (simp add: lastClose_def)
next
  case (Cons ph phs)
  from Cons.prems obtain cs1 st1 cs2 where
    a: "forWhile (\<lambda>s. int (candleCount s) < n) (pumpDumpBody this vol ph) 0 (nat (pd_duration ph)) st
          = Some (cs1, st1)" and
    b: "pumpDumpLoop this vol n phs st1 = Some (cs2, st')" and
    c: "cs = cs1 @ cs2"
    by (auto split: option.splits prod.splits)
  have "chainFrom (currentMcap st) cs1 \<and> currentMcap st1 = lastClose (currentMcap st) cs1"
    using a by (rule forWhile_chain[rotated]) (erule pumpDumpBody_step)
  with Cons.IH[OF b] c show ?case
    by (simp add: chainFrom_append lastClose_append)
qed

lemma pumpDumpLoop_length:
  "pumpDumpLoop this vol n phs st = Some (cs, st') \<Longrightarrow>
   int (candleCount st) + int (sum_list (map (\<lambda>ph. nat (pd_duration ph)) phs)) \<le> n \<Longrightarrow>
     length cs = sum_list (map (\<lambda>ph. nat (pd_duration ph)) phs) \<and>
     candleCount st' = candleCount st + length cs"
proof (induction phs arbitrary: st cs st')
  case Nil
  then show ?case by simp
next
  case (Cons ph phs)
  from Cons.prems(1) obtain cs1 st1 cs2 where
    a: "forWhile (\<lambda>s. int (candleCount s) < n) (pumpDumpBody this vol ph) 0 (nat (pd_duration ph)) st
          = Some (cs1, st1)" and
    b: "pumpDumpLoop this vol n phs st1 = Some (cs2, st')" and
    c: "cs = cs1 @ cs2"
    by (auto split: option.splits prod.splits)
  have "candleCount st1 = candleCount st + length cs1 \<and>
     length cs1 = min (nat (pd_duration ph)) (nat (n - int (candleCount st)))"
    using a by (rule forWhile_count[rotated]) (erule pumpDumpBody_count)
  moreover have "nat (pd_duration ph) \<le> nat (n - int (candleCount st))"
  proof -
    have "0 \<le> int (sum_list (map (\<lambda>ph. nat (pd_duration ph)) phs))" by simp
    with Cons.prems(2) show ?thesis by (simp split: if_splits)
  qed
  ultimately
  have l1: "length cs1 = nat (pd_duration ph)" and c1: "candleCount st1 = candleCount st + length cs1"
    by simp_all
  from Cons.IH[OF b] l1 c1 Cons.prems(2)
  have "length cs2 = sum_list (map (\<lambda>ph. nat (pd_duration ph)) phs) \<and>
        candleCount st' = candleCount st1 + length cs2"
    by simp
  with l1 c1 c show ?case by simp
qed

lemma pumpDump_durations:
  "0 \<le> n \<Longrightarrow>
   int (sum_list (map (\<lambda>ph. nat (pd_duration ph)) (pumpDumpPhases n)))
     = 2 * \<lfloor>real_of_int n * 0.25\<rfloor> + \<lfloor>real_of_int n * 0.15\<rfloor> + \<lfloor>real_of_int n * 0.35\<rfloor>"
  by (simp add: pumpDumpPhases_def)

lemma pumpDump_durations_le:
  "0 \<le> n \<Longrightarrow> 2 * \<lfloor>real_of_int n * 0.25\<rfloor> + \<lfloor>real_of_int n * 0.15\<rfloor> + \<lfloor>real_of_int n * 0.35\<rfloor> \<le> n"
proof -
  have a: "real_of_int \<lfloor>real_of_int n * 0.25\<rfloor> \<le> real_of_int n * 0.25" by (rule of_int_floor_le)
  have b: "real_of_int \<lfloor>real_of_int n * 0.15\<rfloor> \<le> real_of_int n * 0.15" by (rule of_int_floor_le)
  have c: "real_of_int \<lfloor>real_of_int n * 0.35\<rfloor> \<le> real_of_int n * 0.35" by (rule of_int_floor_le)
  have "real_of_int (2 * \<lfloor>real_of_int n * 0.25\<rfloor> + \<lfloor>real_of_int n * 0.15\<rfloor> + \<lfloor>real_of_int n * 0.35\<rfloor>) \<le> real_of_int n"
    using a b c by simp
  then show ?thesis by linarith
qed

lemma generatePumpDump_chain:
  assumes "generatePumpDump this start n vol w = Some (cs, w')"
  shows "chainFrom start cs \<and>
     (0 \<le> n \<longrightarrow> int (length cs) = 2 * \<lfloor>real_of_int n * 0.25\<rfloor> + \<lfloor>real_of_int n * 0.15\<rfloor> + \<lfloor>real_of_int n * 0.35\<rfloor>)"
proof -
  from assms obtain v st0 st where
    l: "pumpDumpLoop this v n (pumpDumpPhases n) st0 = Some (cs, st)" and
    s: "currentMcap st0 = start" and c: "candleCount st0 = 0"
    unfolding generatePumpDump_def
    by (auto simp: Let_def split: option.splits prod.splits)
  from pumpDumpLoop_chain[OF l] s have 1: "chainFrom start cs" by simp
  have 2: "int (length cs) = 2 * \<lfloor>real_of_int n * 0.25\<rfloor> + \<lfloor>real_of_int n * 0.15\<rfloor> + \<lfloor>real_of_int n * 0.35\<rfloor>"
    if "0 \<le> n"
    using pumpDumpLoop_length[OF l] c pumpDump_durations[OF that] pumpDump_durations_le[OF that]
    by simp
  from 1 2 show ?thesis by blast
qed

lemma length_timestamped [simp]: "length (timestamped t d) = length d"
  by (simp add: timestamped_def)

lemma timestamped_eq_Nil [simp]: "(timestamped t d = []) = (d = [])"
  by (simp add: timestamped_def)

lemma timestamped_nth:
  "i < length d \<Longrightarrow>
     c_open (timestamped t d ! i) = c_open (d ! i) \<and> c_high (timestamped t d ! i) = c_high (d ! i) \<and>
     c_low (timestamped t d ! i) = c_low (d ! i) \<and> c_close (timestamped t d ! i) = c_close (d ! i) \<and>
     c_volume (timestamped t d ! i) = c_volume (d ! i)"
  by (simp add: timestamped_def)


lemma randomInt_range:
  assumes "a \<le> b"
  shows "a \<le> fst (randomInt a b w) \<and> fst (randomInt a b w) \<le> b"
proof -
  let ?r = "val (shd (rng w))"
  let ?k = "real_of_int (b - a + 1)"
  have k: "0 < ?k" using assms by simp
  have 0: "0 \<le> ?r * ?k" using k by simp
  have "?r * ?k < 1 * ?k" using k by (intro mult_strict_right_mono) simp_all
  then have 1: "?r * ?k < real_of_int (b - a + 1)" by simp
  from 0 have "0 \<le> \<lfloor>?r * ?k\<rfloor>" by simp
  moreover from 1 have "\<lfloor>?r * ?k\<rfloor> < b - a + 1" by (simp only: floor_less_iff)
  ultimately show ?thesis
    by (simp add: randomInt_def nextRng_def)
qed

lemma randomInt_rng: "rng (snd (randomInt a b w)) = stl (rng w)"
  by (simp add: randomInt_def nextRng_def)





lemma forWhile_total:
  assumes step: "\<And>i st. I st \<Longrightarrow> \<exists>c st'. body i st = Some (c, st') \<and> I st'"
  shows "I st \<Longrightarrow> \<exists>cs st'. forWhile g body i k st = Some (cs, st') \<and> I st'"
proof (induction k arbitrary: i st)
  case 0
  then show ?case by simp
next
  case (Suc k)
  show ?case
  proof (cases "g st")
    case False
    with Suc.prems show ?thesis by simp
  next
    case True
    from step[OF Suc.prems] obtain c st1 where b: "body i st = Some (c, st1)" and i1: "I st1"
      by blast
    from Suc.IH[OF i1] obtain cs st' where "forWhile g body (Suc i) k st1 = Some (cs, st')" "I st'"
      by blast
    with b True show ?thesis by simp
  qed
qed

lemma findPhase_total: "phases \<noteq> [] \<Longrightarrow> \<exists>p. findPhase x phases = Some p"
  by (simp add: findPhase_def split: option.splits)

lemma preBondingBody_total:
  assumes "noZero (rng st)" "marketPhases this \<noteq> []"
  shows "\<exists>c st'. preBondingBody this vol n i st = Some (c, st') \<and> noZero (rng st')"
proof -
  from findPhase_total[OF assms(2)] obtain p where
    p: "findPhase (real i / (real_of_int n - 1)) (marketPhases this) = Some p" by blast
  show ?thesis
    unfolding preBondingBody_def
    using assms(1) p
    by (simp add: Let_def gaussianRandom_noZero nextRng_def noZero_stl)
qed

lemma organicBody_total:
  assumes "noZero (rng st)"
  shows "\<exists>c st'. organicBody this vol i st = Some (c, st') \<and> noZero (rng st')"
  unfolding organicBody_def using assms
  by (simp add: Let_def gaussianRandom_noZero nextRng_def noZero_stl)

lemma pumpDumpBody_total:
  assumes "noZero (rng st)"
  shows "\<exists>c st'. pumpDumpBody this vol ph i st = Some (c, st') \<and> noZero (rng st')"
  unfolding pumpDumpBody_def pumpDumpClose_def using assms
  by (simp add: Let_def gaussianRandom_noZero nextRng_def noZero_stl)

lemma instantRugBody_total:
  assumes "noZero (rng st)"
  shows "\<exists>c st'. instantRugBody this vol rp i st = Some (c, st') \<and> noZero (rng st')"
  unfolding instantRugBody_def instantRugChange_def using assms
  by (simp add: Let_def random_def nextRng_def nextMathRandom_def noZero_stl)

lemma slowBleedBody_total:
  assumes "noZero (rng st)"
  shows "\<exists>c st'. slowBleedBody this vol n bd i st = Some (c, st') \<and> noZero (rng st')"
  unfolding slowBleedBody_def using assms
  by (simp add: Let_def gaussianRandom_noZero nextRng_def nextMathRandom_def noZero_stl)

lemma consolidationBody_total:
  assumes "noZero (rng st)"
  shows "\<exists>c st'. consolidationBody vol n ce up rc i st = Some (c, st') \<and> noZero (rng st')"
  unfolding consolidationBody_def using assms
  by (simp add: Let_def gaussianRandom_noZero nextRng_def nextMathRandom_def noZero_stl)

lemma forLoop_total_noZero:
  fixes body :: "nat \<Rightarrow> 'a world_scheme \<Rightarrow> (candle \<times> 'a world_scheme) option"
  assumes "\<And>i st. noZero (rng st) \<Longrightarrow> \<exists>c st'. body i st = Some (c, st') \<and> noZero (rng st')"
    and "noZero (rng st)"
  shows "\<exists>cs st'. forLoop body n st = Some (cs, st') \<and> noZero (rng st')"
  unfolding forLoop_def
  by (rule forWhile_total[where I = "\<lambda>s. noZero (rng s)"]) (fact assms)+

lemma randomInt_noZero: "noZero (rng w) \<Longrightarrow> noZero (rng (snd (randomInt a b w)))"
  by (simp add: randomInt_rng noZero_stl)

lemma generatePreBonding_total:
  assumes "noZero (rng w)" "marketPhases this \<noteq> []"
  shows "\<exists>cs w'. generatePreBonding this vol w = Some (cs, w') \<and> noZero (rng w')"
proof -
  obtain n w1 where r: "randomInt 150 400 w = (n, w1)" by fastforce
  with randomInt_noZero[OF assms(1), of 150 400] have nz: "noZero (rng w1)" by simp
  define st0 :: preState where "st0 = \<lparr>rng = rng w1, mathRandom = mathRandom w1,
                 currentMcap = INITIAL_MCAP this, volumeAvg = mean [50000, 150000],
                 shortTermMomentum = 0, longTermMemory = 0\<rparr>"
  have "noZero (rng st0)" using nz by (simp add: st0_def)
  then have "\<exists>cs st'. forLoop (preBondingBody this
        (lookupOr [(''low'', 0.08), (''medium'', 0.15), (''high'', 0.25), (''extreme'', 0.35)] vol 0.15) n)
        (nat n) st0 = Some (cs, st') \<and> noZero (rng st')"
    by (intro forLoop_total_noZero preBondingBody_total assms(2))
  then show ?thesis
    unfolding generatePreBonding_def st0_def using r by (auto simp: Let_def)
qed

lemma generateOrganic_total:
  assumes "noZero (rng w)"
  shows "\<exists>cs w'. generateOrganic this start n vol w = Some (cs, w') \<and> noZero (rng w')"
proof -
  define st0 :: volState where "st0 = \<lparr>rng = rng w, mathRandom = mathRandom w, currentMcap = start,
                 volumeAvg = mean [80000, 120000]\<rparr>"
  have "noZero (rng st0)" using assms by (simp add: st0_def)
  then have "\<exists>cs st'. forLoop (organicBody this
        (lookupOr [(''low'', 0.012), (''medium'', 0.02), (''high'', 0.03), (''extreme'', 0.04)] vol 0.02))
        (nat n) st0 = Some (cs, st') \<and> noZero (rng st')"
    by (intro forLoop_total_noZero organicBody_total)
  then show ?thesis
    unfolding generateOrganic_def st0_def by (auto simp: Let_def)
qed

lemma pumpDumpLoop_total:
  "noZero (rng st) \<Longrightarrow> \<exists>cs st'. pumpDumpLoop this vol n phs st = Some (cs, st') \<and> noZero (rng st')"
proof (induction phs arbitrary: st)
  case Nil
  then show ?case by simp
next
  case (Cons ph phs)
  have "\<exists>cs st'. forWhile (\<lambda>s. int (candleCount s) < n) (pumpDumpBody this vol ph) 0 (nat (pd_duration ph)) st
           = Some (cs, st') \<and> noZero (rng st')"
    by (rule forWhile_total[where I = "\<lambda>s. noZero (rng s)"]) (rule pumpDumpBody_total, assumption, fact Cons.prems)
  then obtain cs1 st1 where
    a: "forWhile (\<lambda>s. int (candleCount s) < n) (pumpDumpBody this vol ph) 0 (nat (pd_duration ph)) st
           = Some (cs1, st1)" and nz: "noZero (rng st1)" by blast
  from Cons.IH[OF nz] obtain cs2 st2 where
    "pumpDumpLoop this vol n phs st1 = Some (cs2, st2)" "noZero (rng st2)" by blast
  with a show ?case by simp
qed

lemma generatePumpDump_total:
  assumes "noZero (rng w)"
  shows "\<exists>cs w'. generatePumpDump this start n vol w = Some (cs, w') \<and> noZero (rng w')"
proof -
  define st0 :: pumpState where "st0 = \<lparr>rng = rng w, mathRandom = mathRandom w, currentMcap = start,
                 volumeAvg = mean [100000, 150000], candleCount = 0\<rparr>"
  have "noZero (rng st0)" using assms by (simp add: st0_def)
  from pumpDumpLoop_total[OF this]
  have "\<exists>cs st'. pumpDumpLoop this
        (lookupOr [(''low'', 0.025), (''medium'', 0.035), (''high'', 0.045), (''extreme'', 0.055)] vol 0.035)
        n (pumpDumpPhases n) st0 = Some (cs, st') \<and> noZero (rng st')" .
  then show ?thesis
    unfolding generatePumpDump_def st0_def by (auto simp: Let_def)
qed

lemma generateInstantRug_total:
  assumes "noZero (rng w)"
  shows "\<exists>cs w'. generateInstantRug this start n vol w = Some (cs, w') \<and> noZero (rng w')"
proof -
  obtain rp w1 where r: "randomInt 10 30 w = (rp, w1)" by fastforce
  with randomInt_noZero[OF assms(1), of 10 30] have nz: "noZero (rng w1)" by simp
  define st0 :: mcapState where "st0 = \<lparr>rng = rng w1, mathRandom = mathRandom w1, currentMcap = start\<rparr>"
  have "noZero (rng st0)" using nz by (simp add: st0_def)
  then have "\<exists>cs st'. forLoop (instantRugBody this
        (lookupOr [(''low'', 0.01), (''medium'', 0.02), (''high'', 0.03), (''extreme'', 0.04)] vol 0.02) rp)
        (nat n) st0 = Some (cs, st') \<and> noZero (rng st')"
    by (intro forLoop_total_noZero instantRugBody_total)
  then show ?thesis
    unfolding generateInstantRug_def st0_def using r by (auto simp: Let_def)
qed

lemma generateSlowBleed_total:
  assumes "noZero (rng w)"
  shows "\<exists>cs w'. generateSlowBleed this start n vol w = Some (cs, w') \<and> noZero (rng w')"
proof -
  obtain x w1 where r: "random 0.1 0.2 w = (x, w1)" by fastforce
  then have "rng w1 = stl (rng w)" by (auto simp: random_def nextRng_def)
  with assms have nz: "noZero (rng w1)" by (simp add: noZero_stl)
  define st0 :: mcapState where "st0 = \<lparr>rng = rng w1, mathRandom = mathRandom w1, currentMcap = start\<rparr>"
  have "noZero (rng st0)" using nz by (simp add: st0_def)
  then have "\<exists>cs st'. forLoop (slowBleedBody this
        (lookupOr [(''low'', 0.01), (''medium'', 0.015), (''high'', 0.02), (''extreme'', 0.025)] vol 0.015)
        n (ln (start * x / start) / real_of_int n))
        (nat n) st0 = Some (cs, st') \<and> noZero (rng st')"
    by (intro forLoop_total_noZero slowBleedBody_total)
  then show ?thesis
    unfolding generateSlowBleed_def st0_def using r by (auto simp: Let_def)
qed

lemma generateConsolidation_total:
  assumes "noZero (rng w)"
  shows "\<exists>cs w'. generateConsolidation this start n vol w = Some (cs, w') \<and> noZero (rng w')"
proof -
  define st0 :: mcapState where
    "st0 = \<lparr>rng = rng w, mathRandom = stl (mathRandom w), currentMcap = start\<rparr>"
  have "noZero (rng st0)" using assms by (simp add: st0_def)
  then have "\<exists>cs st'. forLoop (consolidationBody
        (lookupOr [(''low'', 0.008), (''medium'', 0.012), (''high'', 0.016), (''extreme'', 0.02)] vol 0.012)
        n \<lfloor>real_of_int n * 0.7\<rfloor> (val (shd (mathRandom w)) > 0.5) ((start * 1.1 + start * 0.9) / 2))
        (nat n) st0 = Some (cs, st') \<and> noZero (rng st')"
    by (intro forLoop_total_noZero consolidationBody_total)
  then show ?thesis
    unfolding generateConsolidation_def st0_def by (auto simp: Let_def nextMathRandom_def)
qed

lemma generatePostBonding_total:
  assumes "noZero (rng w)"
  shows "\<exists>cs w'. generatePostBonding this start scen vol w = Some (cs, w') \<and> noZero (rng w')"
proof -
  obtain n w1 where r: "randomInt 500 1500 w = (n, w1)" by fastforce
  with randomInt_noZero[OF assms(1), of 500 1500] have nz: "noZero (rng w1)" by simp
  show ?thesis
    unfolding generatePostBonding_def
    using r generateOrganic_total[OF nz] generatePumpDump_total[OF nz] generateInstantRug_total[OF nz]
      generateSlowBleed_total[OF nz] generateConsolidation_total[OF nz]
    by simp
qed

lemma generate_total:
  assumes "noZero (rng w)" "marketPhases this \<noteq> []"
  shows "\<exists>r w'. generate this opts now w = Some (r, w')"
proof -
  let ?vol = "withDefault (volatility opts) ''medium''"
  let ?ct = "withDefault (chartType opts) ''full''"
  define ms where "ms = (if withDefault (scenario opts) ''random'' = ''random''
                         then stl (stl (mathRandom w)) else stl (mathRandom w))"
  define w2 where "w2 = w\<lparr>mathRandom := ms\<rparr>"
  have nz2: "noZero (rng w2)" using assms(1) by (simp add: w2_def)
  from generatePreBonding_total[OF nz2 assms(2), of ?vol]
  obtain pre wp where pre: "generatePreBonding this ?vol w2 = Some (pre, wp)" and nzp: "noZero (rng wp)"
    by blast
  have postA: "\<forall>start scen. \<exists>cs w'. generatePostBonding this start scen ?vol wp = Some (cs, w')"
    using generatePostBonding_total[OF nzp] by blast
  have postB: "\<forall>start scen. \<exists>cs w'. generatePostBonding this start scen ?vol w2 = Some (cs, w')"
    using generatePostBonding_total[OF nz2] by blast
  show ?thesis
  proof (cases "withDefault (scenario opts) ''random'' = ''random''")
    case True
    then have ms: "w\<lparr>mathRandom := stl (stl (mathRandom w))\<rparr> = w2" by (simp add: w2_def ms_def)
    show ?thesis
      unfolding generate_def
      using True pre postA postB
      apply (simp add: Let_def nextMathRandom_def ms del: split_paired_Ex)
      apply (auto simp: bind_eq_Some_conv split_def)
      apply (metis prod.collapse)+
      done
  next
    case False
    then have ms: "w\<lparr>mathRandom := stl (mathRandom w)\<rparr> = w2" by (simp add: w2_def ms_def)
    show ?thesis
      unfolding generate_def
      using False pre postA postB
      apply (simp add: Let_def nextMathRandom_def ms del: split_paired_Ex)
      apply (auto simp: bind_eq_Some_conv split_def)
      apply (metis prod.collapse)+
      done
  qed
qed

lemma val_half [simp]: "val (mkDraw (1/2)) = 1/2"
  by (simp add: val_mkDraw)

lemma noZero_halfWorld [simp]: "noZero (rng halfWorld)"
  by (simp add: noZero_def halfWorld_def)

lemma ChartGenerator_phases [simp]: "marketPhases ChartGenerator \<noteq> []"
  by (simp add: ChartGenerator_def)












lemma generate_unfold:
  "generate this opts now w =
     (let sc = withDefault (scenario opts) ''random'';
          w1 = (if sc = ''random'' then snd (nextMathRandom w) else w);
          fs = (if sc = ''random''
                then [''organic'', ''pump_dump'', ''instant_rug'', ''slow_bleed'', ''consolidation'']
                       ! nat \<lfloor>fst (nextMathRandom w) * 5\<rfloor>
                else sc)
      in Option.bind (preStage this (withDefault (chartType opts) ''full'')
                        (withDefault (volatility opts) ''medium'') (snd (nextMathRandom w1)))
           (\<lambda>(data1, w3).
              Option.bind (postStage this (withDefault (chartType opts) ''full'') fs
                             (withDefault (volatility opts) ''medium'') data1 w3)
                (\<lambda>(data2, w4).
                   Some (\<lparr>res_id = (now, fst (nextMathRandom w1)), res_scenario = fs,
                           res_data = timestamped (now div 1000) data2,
                           res_metadata = calculateMetadata data2\<rparr>, w4))))"
  by (simp add: generate_def preStage_def postStage_def Let_def split_def)

lemma generatePostBonding_default:
  assumes "scen \<notin> {''organic'', ''pump_dump'', ''instant_rug'', ''slow_bleed'', ''consolidation''}"
  shows "generatePostBonding this start scen vol w = generatePostBonding this start ''organic'' vol w"
  using assms by (simp add: generatePostBonding_def split_def)

lemma generate_scenario_default:
  assumes "scen \<notin> {''organic'', ''pump_dump'', ''instant_rug'', ''slow_bleed'', ''consolidation'', ''random''}"
  shows "generate this (opts\<lparr>scenario := Some scen\<rparr>) now w =
         map_option (\<lambda>(r, w'). (r\<lparr>res_scenario := scen\<rparr>, w'))
           (generate this (opts\<lparr>scenario := Some ''organic''\<rparr>) now w)"
proof -
  have d: "postStage this ct scen vol d w = postStage this ct ''organic'' vol d w"
    for ct vol d w
    using assms by (simp add: postStage_def generatePostBonding_default)
  have r: "scen \<noteq> ''random''" using assms by simp
  show ?thesis
    unfolding generate_unfold
    using r
    by (simp add: Let_def withDefault_def d map_option_bind comp_def split_def)
qed


lemma find_samePhase:
  assumes "list_all2 samePhase ps qs"
  shows "rel_option samePhase
           (List.find (\<lambda>p. x \<ge> ph_start p \<and> x < ph_end p) ps)
           (List.find (\<lambda>p. x \<ge> ph_start p \<and> x < ph_end p) qs)"
  using assms by (induction rule: list_all2_induct) (auto simp: samePhase_def)

lemma last_samePhase:
  assumes "list_all2 samePhase ps qs" "ps \<noteq> []"
  shows "samePhase (last ps) (last qs)"
  using assms by (induction rule: list_all2_induct) (auto simp: list_all2_Nil)

lemma findPhase_samePhase:
  assumes "list_all2 samePhase ps qs"
  shows "rel_option samePhase (findPhase x ps) (findPhase x qs)"
proof -
  from find_samePhase[OF assms, of x]
  have f: "rel_option samePhase
           (List.find (\<lambda>p. x \<ge> ph_start p \<and> x < ph_end p) ps)
           (List.find (\<lambda>p. x \<ge> ph_start p \<and> x < ph_end p) qs)" .
  from assms have e: "ps = [] \<longleftrightarrow> qs = []" by auto
  show ?thesis
    using f e last_samePhase[OF assms]
    unfolding findPhase_def
    by (auto split: option.splits elim: option.rel_cases)
qed

lemma preBondingBody_samePhase:
  assumes "list_all2 samePhase ps qs"
  shows "preBondingBody (this\<lparr>marketPhases := ps\<rparr>) vol n i st
       = preBondingBody (this\<lparr>marketPhases := qs\<rparr>) vol n i st"
proof -
  have t: "preTotalChange (this\<lparr>marketPhases := ps\<rparr>) = preTotalChange (this\<lparr>marketPhases := qs\<rparr>)"
    by (intro ext) (simp add: preTotalChange_def marketMemory_def hasBrokenOut_def expectedMcap_def Let_def
          cong del: if_weak_cong)
  have c: "preCandle (this\<lparr>marketPhases := ps\<rparr>) = preCandle (this\<lparr>marketPhases := qs\<rparr>)"
    by (intro ext) (simp add: preCandle_def Let_def cong del: if_weak_cong)
  from findPhase_samePhase[OF assms, of "real i / (real_of_int n - 1)"]
  show ?thesis
    unfolding preBondingBody_def t c
    by (cases rule: option.rel_cases) (simp_all add: samePhase_def)
qed

lemma generatePreBonding_samePhase:
  assumes "list_all2 samePhase ps qs"
  shows "generatePreBonding (this\<lparr>marketPhases := ps\<rparr>) vol w
       = generatePreBonding (this\<lparr>marketPhases := qs\<rparr>) vol w"
proof -
  have "preBondingBody (this\<lparr>marketPhases := ps\<rparr>) v n = preBondingBody (this\<lparr>marketPhases := qs\<rparr>) v n"
    for v n
    by (intro ext) (rule preBondingBody_samePhase[OF assms])
  then show ?thesis
    by (simp add: generatePreBonding_def)
qed

lemma generatePostBonding_phases:
  "generatePostBonding (this\<lparr>marketPhases := ps\<rparr>) start scen vol w
     = generatePostBonding (this\<lparr>marketPhases := qs\<rparr>) start scen vol w"
proof -
  have oc: "organicChange (this\<lparr>marketPhases := ps\<rparr>) = organicChange (this\<lparr>marketPhases := qs\<rparr>)"
    by (intro ext) (simp add: organicChange_def Let_def cong del: if_weak_cong)
  have ocd: "organicCandle (this\<lparr>marketPhases := ps\<rparr>) = organicCandle (this\<lparr>marketPhases := qs\<rparr>)"
    by (intro ext) (simp add: organicCandle_def Let_def cong del: if_weak_cong)
  have 1: "organicBody (this\<lparr>marketPhases := ps\<rparr>) = organicBody (this\<lparr>marketPhases := qs\<rparr>)"
    by (intro ext) (simp only: organicBody_def oc ocd)
  have pc: "pumpDumpChange (this\<lparr>marketPhases := ps\<rparr>) = pumpDumpChange (this\<lparr>marketPhases := qs\<rparr>)"
    by (intro ext) (simp add: pumpDumpChange_def Let_def cong del: if_weak_cong)
  have pcd: "pumpDumpCandle (this\<lparr>marketPhases := ps\<rparr>) = pumpDumpCandle (this\<lparr>marketPhases := qs\<rparr>)"
    by (intro ext) (simp add: pumpDumpCandle_def Let_def cong del: if_weak_cong)
  have pcl: "pumpDumpClose (this\<lparr>marketPhases := ps\<rparr>) ph c (st :: pumpState)
               = pumpDumpClose (this\<lparr>marketPhases := qs\<rparr>) ph c st" for ph c st
    by (simp add: pumpDumpClose_def Let_def cong del: if_weak_cong)
  have 2: "pumpDumpBody (this\<lparr>marketPhases := ps\<rparr>) = pumpDumpBody (this\<lparr>marketPhases := qs\<rparr>)"
    by (intro ext) (simp only: pumpDumpBody_def pc pcd pcl generator.simps)
  have pl: "pumpDumpLoop (this\<lparr>marketPhases := ps\<rparr>) v n phs st = pumpDumpLoop (this\<lparr>marketPhases := qs\<rparr>) v n phs st"
    for v n phs st
    by (induction phs arbitrary: st) (simp_all add: 2 cong: option.case_cong)
  have rc: "instantRugCandle (this\<lparr>marketPhases := ps\<rparr>) = instantRugCandle (this\<lparr>marketPhases := qs\<rparr>)"
    by (intro ext) (simp add: instantRugCandle_def Let_def cong del: if_weak_cong)
  have 3: "instantRugBody (this\<lparr>marketPhases := ps\<rparr>) = instantRugBody (this\<lparr>marketPhases := qs\<rparr>)"
    by (intro ext) (simp only: instantRugBody_def rc)
  have sc: "slowBleedCandle (this\<lparr>marketPhases := ps\<rparr>) = slowBleedCandle (this\<lparr>marketPhases := qs\<rparr>)"
    by (intro ext) (simp add: slowBleedCandle_def Let_def cong del: if_weak_cong)
  have 4: "slowBleedBody (this\<lparr>marketPhases := ps\<rparr>) = slowBleedBody (this\<lparr>marketPhases := qs\<rparr>)"
    by (intro ext) (simp only: slowBleedBody_def sc)
  show ?thesis
    by (simp only: generatePostBonding_def generateOrganic_def generatePumpDump_def
          generateInstantRug_def generateSlowBleed_def generateConsolidation_def 1 pl 3 4)
qed

lemma generate_samePhase:
  assumes "list_all2 samePhase ps qs"
  shows "generate (this\<lparr>marketPhases := ps\<rparr>) opts now w = generate (this\<lparr>marketPhases := qs\<rparr>) opts now w"
  unfolding generate_unfold preStage_def postStage_def
  by (simp add: Let_def generatePreBonding_samePhase[OF assms] generatePostBonding_phases[where ps = ps and qs = qs]
        cong del: if_weak_cong)

lemma samePhase_bias:
  assumes "length bs = length ps"
  shows "list_all2 samePhase (map2 (\<lambda>p b. p\<lparr>ph_bias := b\<rparr>) ps bs) ps"
  using assms by (induction bs ps rule: list_induct2) (simp_all add: samePhase_def)

text \<open>
  Claim C10. The \<open>bias\<close> fields of the market phases never enter a candle:
  \<open>totalChangePercent\<close> is the sum of the shock, momentum, memory, cycle and
  mean-reversion terms only, and replacing the bias values of the phase table by any
  other values \<open>bs\<close> leaves the pre-bonding candles and the whole result of \<open>generate\<close>
  unchanged. Two tables that agree on every field but \<open>bias\<close> give the same candles.
\<close>

theorem bias_never_used:
  assumes "length bs = length (marketPhases this)"
  shows "generatePreBonding (this\<lparr>marketPhases := map2 (\<lambda>p b. p\<lparr>ph_bias := b\<rparr>) (marketPhases this) bs\<rparr>) vol w
           = generatePreBonding this vol w
       \<and> generate (this\<lparr>marketPhases := map2 (\<lambda>p b. p\<lparr>ph_bias := b\<rparr>) (marketPhases this) bs\<rparr>) opts now w
           = generate this opts now w
       \<and> preTotalChange this n i baseVolatility g1 momentum memory mcap
           = g1 * baseVolatility + momentum * 0.2 + memory * 0.05
               + sin (real i * 0.05) * 0.5 * baseVolatility * 0.2
               + marketMemory this n i mcap"
proof -
  have e: "this\<lparr>marketPhases := marketPhases this\<rparr> = this" by simp
  from generatePreBonding_samePhase[OF samePhase_bias[OF assms], where this = "this" and vol = vol and w = w]
       generate_samePhase[OF samePhase_bias[OF assms], where this = "this" and opts = opts and now = now and w = w]
  show ?thesis by (simp add: preTotalChange_def e)
qed

theorem bias_never_used_witness:
  "length [1, 1, 1, 1, 1, 1 :: real] = length (marketPhases ChartGenerator)
   \<and> generate (ChartGenerator\<lparr>marketPhases :=
         map2 (\<lambda>p b. p\<lparr>ph_bias := b\<rparr>) (marketPhases ChartGenerator) [1, 1, 1, 1, 1, 1]\<rparr>)
       \<lparr>chartType = None, scenario = None, volatility = None\<rparr> 0 halfWorld
     = generate ChartGenerator \<lparr>chartType = None, scenario = None, volatility = None\<rparr> 0 halfWorld
   \<and> generate ChartGenerator \<lparr>chartType = None, scenario = None, volatility = None\<rparr> 0 halfWorld \<noteq> None"
proof -
  have l: "length [1, 1, 1, 1, 1, 1 :: real] = length (marketPhases ChartGenerator)"
    by (simp add: ChartGenerator_def)
  from generate_total[OF noZero_halfWorld ChartGenerator_phases,
         of "\<lparr>chartType = None, scenario = None, volatility = None\<rparr>" 0]
  have "generate ChartGenerator \<lparr>chartType = None, scenario = None, volatility = None\<rparr> 0 halfWorld \<noteq> None"
    by auto
  with bias_never_used[OF l] l show ?thesis by blast
qed


text \<open>
  Claim C7, as the code has it. A scenario name outside the six known names does not
  make \<open>generate\<close> fail: the \<open>default\<close> branch of the \<open>switch\<close> generates the
  post-bonding segment as for \<open>organic\<close>. The result is the one for \<open>organic\<close> with the
  given name in its \<open>scenario\<close> field, and on a seeded stream without a zero draw the
  call returns.
\<close>

theorem unknown_scenario_is_organic:
  assumes "scen \<notin> {''organic'', ''pump_dump'', ''instant_rug'', ''slow_bleed'', ''consolidation'', ''random''}"
  shows "generate this (opts\<lparr>scenario := Some scen\<rparr>) now w =
           map_option (\<lambda>(r, w'). (r\<lparr>res_scenario := scen\<rparr>, w'))
             (generate this (opts\<lparr>scenario := Some ''organic''\<rparr>) now w)
       \<and> generatePostBonding this start scen vol w = generatePostBonding this start ''organic'' vol w
       \<and> (noZero (rng w) \<and> marketPhases this \<noteq> []
            \<longrightarrow> generate this (opts\<lparr>scenario := Some scen\<rparr>) now w \<noteq> None)"
proof -
  from assms have "scen \<notin> {''organic'', ''pump_dump'', ''instant_rug'', ''slow_bleed'', ''consolidation''}"
    by simp
  from generatePostBonding_default[OF this]
  have "generatePostBonding this start scen vol w = generatePostBonding this start ''organic'' vol w" .
  moreover have "generate this (opts\<lparr>scenario := Some scen\<rparr>) now w \<noteq> None"
    if "noZero (rng w) \<and> marketPhases this \<noteq> []"
    using generate_total[of w "this" "opts\<lparr>scenario := Some scen\<rparr>" now] that by auto
  ultimately show ?thesis
    using generate_scenario_default[OF assms] by blast
qed

theorem unknown_scenario_is_organic_witness:
  "''moon'' \<notin> {''organic'', ''pump_dump'', ''instant_rug'', ''slow_bleed'', ''consolidation'', ''random''}
   \<and> noZero (rng halfWorld) \<and> marketPhases ChartGenerator \<noteq> []
   \<and> generate ChartGenerator \<lparr>chartType = None, scenario = Some ''moon'', volatility = None\<rparr> 0 halfWorld
        = map_option (\<lambda>(r, w'). (r\<lparr>res_scenario := ''moon''\<rparr>, w'))
            (generate ChartGenerator \<lparr>chartType = None, scenario = Some ''organic'', volatility = None\<rparr>
               0 halfWorld)
   \<and> generate ChartGenerator \<lparr>chartType = None, scenario = Some ''moon'', volatility = None\<rparr> 0 halfWorld
        \<noteq> None"
proof -
  have a: "''moon'' \<notin> {''organic'', ''pump_dump'', ''instant_rug'', ''slow_bleed'', ''consolidation'', ''random''}"
    by simp
  have e1: "\<lparr>chartType = None, scenario = None, volatility = None\<rparr>\<lparr>scenario := Some ''moon''\<rparr>
              = \<lparr>chartType = None, scenario = Some ''moon'', volatility = None\<rparr>"
    and e2: "\<lparr>chartType = None, scenario = None, volatility = None\<rparr>\<lparr>scenario := Some ''organic''\<rparr>
              = \<lparr>chartType = None, scenario = Some ''organic'', volatility = None\<rparr>"
    by simp_all
  note u = unknown_scenario_is_organic[OF a, where this = ChartGenerator
         and opts = "\<lparr>chartType = None, scenario = None, volatility = None\<rparr>" and now = 0
         and w = halfWorld and start = 0 and vol = "''low''", unfolded e1 e2]
  from u a noZero_halfWorld ChartGenerator_phases show ?thesis by blast
qed

text \<open>
  The claim as stated fails: with the unknown name \<open>moon\<close> the call returns a chart,
  whose candles are those of the scenario \<open>organic\<close>.
\<close>

theorem unknown_scenario_counterexample:
  "generate ChartGenerator \<lparr>chartType = Some ''post'', scenario = Some ''moon'',
                            volatility = Some ''medium''\<rparr> 0 halfWorld \<noteq> None
   \<and> map_option (\<lambda>p. res_data (fst p))
        (generate ChartGenerator \<lparr>chartType = Some ''post'', scenario = Some ''moon'',
                                  volatility = Some ''medium''\<rparr> 0 halfWorld)
     = map_option (\<lambda>p. res_data (fst p))
        (generate ChartGenerator \<lparr>chartType = Some ''post'', scenario = Some ''organic'',
                                  volatility = Some ''medium''\<rparr> 0 halfWorld)"
proof -
  let ?o = "\<lparr>chartType = Some ''post'', scenario = Some ''moon'', volatility = Some ''medium''\<rparr>"
  have a: "''moon'' \<notin> {''organic'', ''pump_dump'', ''instant_rug'', ''slow_bleed'', ''consolidation'', ''random''}"
    by simp
  from generate_total[OF noZero_halfWorld ChartGenerator_phases, of ?o 0]
  have 1: "generate ChartGenerator ?o 0 halfWorld \<noteq> None" by auto
  from generate_scenario_default[OF a, of ChartGenerator ?o 0 halfWorld]
  have 2: "map_option (\<lambda>p. res_data (fst p)) (generate ChartGenerator ?o 0 halfWorld)
     = map_option (\<lambda>p. res_data (fst p))
        (generate ChartGenerator \<lparr>chartType = Some ''post'', scenario = Some ''organic'',
                                  volatility = Some ''medium''\<rparr> 0 halfWorld)"
    by (simp add: option.map_comp comp_def split_def)
  from 1 2 show ?thesis by blast
qed







lemma ln2_gt_half: "1/2 < ln (2::real)"
proof -
  have "exp (1/2 :: real) ^ 2 = exp 1" by (simp flip: exp_of_nat_mult)
  also have "\<dots> \<le> 3" by (rule exp_le)
  finally have "exp (1/2 :: real) ^ 2 < 2 ^ 2" by simp
  then have "exp (1/2 :: real) < 2" by (rule power2_less_imp_less) simp
  then have "exp (1/2 :: real) < exp (ln 2)" by simp
  then show ?thesis by (simp only: exp_less_cancel_iff)
qed


lemma ln_inv_pow2: "ln (1 / 2 ^ k :: real) = - (real k * ln 2)"
  by (simp add: ln_div ln_realpow)




lemma val_draws [simp]:
  "val (mkDraw (1 / 1099511627776)) = 1 / 1099511627776" "val (mkDraw (1/6)) = 1/6"
  "val (mkDraw (1 / 256)) = 1 / 256"
  by (simp_all add: val_mkDraw)



























text \<open>
  Claim C5 against the code. With 501 candles requested, the four phases of
  \<open>generatePumpDump\<close> last 125, 125, 75 and 175 candles: 500 candles are emitted, one
  fewer than requested, since no phase takes up what the four roundings drop.
\<close>

theorem pump_dump_drops_candle:
  "\<exists>cs w'. generatePostBonding ChartGenerator 100000 ''pump_dump'' ''medium'' drop501World = Some (cs, w')
     \<and> fst (randomInt 500 1500 drop501World) = 501
     \<and> map pd_duration (pumpDumpPhases 501) = [125, 125, 75, 175]
     \<and> length cs = 500"
proof -
  have nz: "noZero (rng drop501World)" by (simp add: noZero_def drop501World_def val_mkDraw)
  from generatePostBonding_total[OF nz, of ChartGenerator 100000 "''pump_dump''" "''medium''"]
  obtain cs w' where g: "generatePostBonding ChartGenerator 100000 ''pump_dump'' ''medium'' drop501World = Some (cs, w')"
    by blast
  have n: "fst (randomInt 500 1500 drop501World) = 501"
    by (simp add: randomInt_def nextRng_def drop501World_def val_mkDraw)
  from g have gp: "generatePumpDump ChartGenerator 100000 501 ''medium''
                           (snd (randomInt 500 1500 drop501World)) = Some (cs, w')"
    by (simp add: generatePostBonding_def split_def Let_def n)
  have d: "map pd_duration (pumpDumpPhases 501) = [125, 125, 75, 175]"
    by (simp add: pumpDumpPhases_def)
  from generatePumpDump_chain[OF gp] have "int (length cs) = 500" by simp
  with g n d show ?thesis by simp
qed


lemma forLoop_first:
  assumes "forLoop body n st = Some (cs, st')" "0 < n"
  shows "\<exists>c st1. body 0 st = Some (c, st1) \<and> cs \<noteq> [] \<and> hd cs = c"
proof -
  from assms(2) obtain k where n: "n = Suc k" by (cases n) auto
  from assms(1) show ?thesis
    unfolding forLoop_def n
    by (auto split: option.splits prod.splits)
qed

lemma generate_post:
  assumes "s \<noteq> ''random''"
  shows "generate this \<lparr>chartType = Some ''post'', scenario = Some s, volatility = Some v\<rparr> now w =
     map_option (\<lambda>(post, w').
         (\<lparr>res_id = (now, val (shd (mathRandom w))), res_scenario = s,
            res_data = timestamped (now div 1000) post,
            res_metadata = calculateMetadata post\<rparr>, w'))
       (generatePostBonding this (BONDING_MCAP this) s v (w\<lparr>mathRandom := stl (mathRandom w)\<rparr>))"
  unfolding generate_unfold preStage_def postStage_def
  using assms
  by (simp add: Let_def withDefault_def nextMathRandom_def map_option_case split: option.splits)

lemma instantRugBody_first:
  assumes "0 < rp"
  shows "\<exists>st'. instantRugBody this v rp 0 st =
     Some (instantRugCandle this v rp 0 (currentMcap st)
             (val (shd (rng st)) * (v * 1.5 - (- v * 0.5)) + (- v * 0.5))
             (100000 + val (shd (mathRandom st)) * 50000)
             (val (shd (stl (mathRandom st))))
             (val (shd (stl (stl (mathRandom st))))), st')"
  using assms unfolding instantRugBody_def instantRugChange_def
  by (simp add: Let_def random_def nextRng_def nextMathRandom_def)

lemma generateInstantRug_hd:
  assumes g: "generateInstantRug this start n vol w = Some (cs, w')" and n: "0 < n"
  shows "cs \<noteq> [] \<and> hd cs =
     (let v = lookupOr [(''low'', 0.01), (''medium'', 0.02), (''high'', 0.03), (''extreme'', 0.04)] vol 0.02
      in instantRugCandle this v (fst (randomInt 10 30 w)) 0 start
             (val (shd (stl (rng w))) * (v * 1.5 - (- v * 0.5)) + (- v * 0.5))
             (100000 + val (shd (mathRandom w)) * 50000)
             (val (shd (stl (mathRandom w))))
             (val (shd (stl (stl (mathRandom w))))))"
proof -
  let ?rp = "fst (randomInt 10 30 w)"
  let ?v = "lookupOr [(''low'', 0.01), (''medium'', 0.02), (''high'', 0.03), (''extreme'', 0.04)] vol 0.02"
  define st0 :: mcapState where
    "st0 = \<lparr>rng = stl (rng w), mathRandom = mathRandom w, currentMcap = start\<rparr>"
  from randomInt_range[of 10 30 w] have rp: "0 < ?rp" by simp
  from g obtain st where
    l: "forLoop (instantRugBody this ?v ?rp) (nat n) st0 = Some (cs, st)"
    unfolding generateInstantRug_def st0_def
    by (auto simp: Let_def randomInt_def nextRng_def split: option.splits prod.splits)
  from forLoop_first[OF l] n obtain c st1 where
    b: "instantRugBody this ?v ?rp 0 st0 = Some (c, st1)" and ne: "cs \<noteq> []" and h: "hd cs = c"
    by auto
  from instantRugBody_first[OF rp, of this ?v st0] b h ne show ?thesis
    by (auto simp: st0_def Let_def)
qed

lemma first_timestamped:
  "post \<noteq> [] \<Longrightarrow>
     c_close (timestamped t post ! 0) = c_close (hd post) \<and>
     c_high (timestamped t post ! 0) = c_high (hd post) \<and>
     c_low (timestamped t post ! 0) = c_low (hd post) \<and>
     c_open (timestamped t post ! 0) = c_open (hd post) \<and>
     c_volume (timestamped t post ! 0) = c_volume (hd post)"
  by (cases post) (simp_all add: timestamped_nth)

lemma generate_instant_rug_first:
  assumes g: "generate ChartGenerator
                \<lparr>chartType = Some ''post'', scenario = Some ''instant_rug'', volatility = Some ''medium''\<rparr>
                now w = Some (r, w')"
  shows "c_close (res_data r ! 0)
           = max 500 (100000 * (1 + (val (shd (stl (stl (rng w)))) * (0.02 * 1.5 - (- 0.02 * 0.5)) + (- 0.02 * 0.5))))
       \<and> c_volume (res_data r ! 0) = 100000 + val (shd (stl (mathRandom w))) * 50000
       \<and> c_high (res_data r ! 0)
           = max 100000 (c_close (res_data r ! 0)) + val (shd (stl (stl (mathRandom w)))) * (0.02 * 100000 * 0.5)"
proof -
  let ?w = "w\<lparr>mathRandom := stl (mathRandom w)\<rparr>"
  from g obtain post where
    gp: "generatePostBonding ChartGenerator (BONDING_MCAP ChartGenerator) ''instant_rug'' ''medium'' ?w
           = Some (post, w')" and
    d: "res_data r = timestamped (now div 1000) post"
    by (auto simp: generate_post)
  from randomInt_range[of 500 1500 ?w] have n: "0 < fst (randomInt 500 1500 ?w)" by simp
  from gp have gi: "generateInstantRug ChartGenerator 100000 (fst (randomInt 500 1500 ?w)) ''medium''
                      (snd (randomInt 500 1500 ?w)) = Some (post, w')"
    by (simp add: generatePostBonding_def split_def Let_def ChartGenerator_def)
  from randomInt_range[of 10 30 "snd (randomInt 500 1500 ?w)"]
  have rp: "int 0 \<noteq> fst (randomInt 10 30 (snd (randomInt 500 1500 ?w)))" by simp
  from generateInstantRug_hd[OF gi n] have ne: "post \<noteq> []" and
    h: "hd post = instantRugCandle ChartGenerator 0.02 (fst (randomInt 10 30 (snd (randomInt 500 1500 ?w)))) 0 100000
             (val (shd (stl (stl (rng w)))) * (0.02 * 1.5 - (- 0.02 * 0.5)) + (- 0.02 * 0.5))
             (100000 + val (shd (stl (mathRandom w))) * 50000)
             (val (shd (stl (stl (mathRandom w)))))
             (val (shd (stl (stl (stl (mathRandom w))))))"
    by (simp_all add: Let_def lookupOr_def randomInt_def nextRng_def)
  show ?thesis
    unfolding d using first_timestamped[OF ne, of "now div 1000"] rp
    by (simp add: h instantRugCandle_def Let_def ChartGenerator_def)
qed

text \<open>
  Claim C2 against the code. For chart type \<open>post\<close> and scenario \<open>instant_rug\<close> the first
  candle opens at the bonding threshold 100000, and with the seeded draw 3/4 it closes
  at 102000 with a high of 102500: above the ceiling and above its 1% wick allowance.
  In the pump phase of \<open>pump_dump\<close> a close above the ceiling is replaced by the ceiling
  times a factor between 0.995 and 1.005, which is 100250 for the draw 3/4.
\<close>

theorem ceiling_exceeded:
  "generate ChartGenerator
     \<lparr>chartType = Some ''post'', scenario = Some ''instant_rug'', volatility = Some ''medium''\<rparr>
     0 threeQuarterWorld \<noteq> None
   \<and> c_close (res_data (fst (the (generate ChartGenerator
        \<lparr>chartType = Some ''post'', scenario = Some ''instant_rug'', volatility = Some ''medium''\<rparr>
        0 threeQuarterWorld))) ! 0) = 102000
   \<and> c_high (res_data (fst (the (generate ChartGenerator
        \<lparr>chartType = Some ''post'', scenario = Some ''instant_rug'', volatility = Some ''medium''\<rparr>
        0 threeQuarterWorld))) ! 0) = 102500
   \<and> fst (pumpDumpClose ChartGenerator (pumpDumpPhases 1250 ! 1) 100100 threeQuarterWorld) = 100250"
proof -
  let ?o = "\<lparr>chartType = Some ''post'', scenario = Some ''instant_rug'', volatility = Some ''medium''\<rparr>"
  have nz: "noZero (rng threeQuarterWorld)"
    by (simp add: noZero_def threeQuarterWorld_def val_mkDraw)
  from generate_total[OF nz ChartGenerator_phases, of ?o 0]
  obtain r w' where g: "generate ChartGenerator ?o 0 threeQuarterWorld = Some (r, w')" by blast
  note f = generate_instant_rug_first[OF g]
  have v: "val (shd (stl (stl (rng threeQuarterWorld)))) = 3/4"
      "val (shd (stl (stl (mathRandom threeQuarterWorld)))) = 1/2"
    by (simp_all add: threeQuarterWorld_def val_mkDraw)
  from f have c: "c_close (res_data r ! 0) = 102000" unfolding v by simp
  from f have h: "c_high (res_data r ! 0) = 102500" unfolding v c by simp
  have p: "fst (pumpDumpClose ChartGenerator (pumpDumpPhases 1250 ! 1) 100100 threeQuarterWorld) = 100250"
    by (simp add: pumpDumpClose_def pumpDumpPhases_def ChartGenerator_def nextRng_def
          threeQuarterWorld_def val_mkDraw)
  from g c h p show ?thesis by simp
qed

text \<open>
  Claim C3 against the code. Two runs of \<open>generate\<close> with the same options and the same
  state of the seeded stream, but different states of \<open>Math.random\<close>, give different
  candles: in scenario \<open>instant_rug\<close> the volume and the high of the first candle are
  125000 and 101500 in one run, 112500 and 101250 in the other.
\<close>

theorem unseeded_draws_change_candles:
  "rng halfWorld = rng quarterNoiseWorld
   \<and> generate ChartGenerator
       \<lparr>chartType = Some ''post'', scenario = Some ''instant_rug'', volatility = Some ''medium''\<rparr>
       0 halfWorld \<noteq> None
   \<and> generate ChartGenerator
       \<lparr>chartType = Some ''post'', scenario = Some ''instant_rug'', volatility = Some ''medium''\<rparr>
       0 quarterNoiseWorld \<noteq> None
   \<and> c_volume (res_data (fst (the (generate ChartGenerator
        \<lparr>chartType = Some ''post'', scenario = Some ''instant_rug'', volatility = Some ''medium''\<rparr>
        0 halfWorld))) ! 0) = 125000
   \<and> c_volume (res_data (fst (the (generate ChartGenerator
        \<lparr>chartType = Some ''post'', scenario = Some ''instant_rug'', volatility = Some ''medium''\<rparr>
        0 quarterNoiseWorld))) ! 0) = 112500
   \<and> c_high (res_data (fst (the (generate ChartGenerator
        \<lparr>chartType = Some ''post'', scenario = Some ''instant_rug'', volatility = Some ''medium''\<rparr>
        0 halfWorld))) ! 0) = 101500
   \<and> c_high (res_data (fst (the (generate ChartGenerator
        \<lparr>chartType = Some ''post'', scenario = Some ''instant_rug'', volatility = Some ''medium''\<rparr>
        0 quarterNoiseWorld))) ! 0) = 101250
   \<and> map_option (\<lambda>p. res_data (fst p)) (generate ChartGenerator
        \<lparr>chartType = Some ''post'', scenario = Some ''instant_rug'', volatility = Some ''medium''\<rparr>
        0 halfWorld)
     \<noteq> map_option (\<lambda>p. res_data (fst p)) (generate ChartGenerator
        \<lparr>chartType = Some ''post'', scenario = Some ''instant_rug'', volatility = Some ''medium''\<rparr>
        0 quarterNoiseWorld)"
proof -
  let ?o = "\<lparr>chartType = Some ''post'', scenario = Some ''instant_rug'', volatility = Some ''medium''\<rparr>"
  have nz: "noZero (rng quarterNoiseWorld)"
    by (simp add: noZero_def quarterNoiseWorld_def val_mkDraw)
  from generate_total[OF noZero_halfWorld ChartGenerator_phases, of ?o 0]
  obtain r1 w1 where g1: "generate ChartGenerator ?o 0 halfWorld = Some (r1, w1)" by blast
  from generate_total[OF nz ChartGenerator_phases, of ?o 0]
  obtain r2 w2 where g2: "generate ChartGenerator ?o 0 quarterNoiseWorld = Some (r2, w2)" by blast
  have v1: "val (shd (stl (stl (rng halfWorld)))) = 1/2"
      "val (shd (stl (mathRandom halfWorld))) = 1/2"
      "val (shd (stl (stl (mathRandom halfWorld)))) = 1/2"
    by (simp_all add: halfWorld_def)
  have v2: "val (shd (stl (stl (rng quarterNoiseWorld)))) = 1/2"
      "val (shd (stl (mathRandom quarterNoiseWorld))) = 1/4"
      "val (shd (stl (stl (mathRandom quarterNoiseWorld)))) = 1/4"
    by (simp_all add: quarterNoiseWorld_def val_mkDraw)
  note f1 = generate_instant_rug_first[OF g1, unfolded v1]
  note f2 = generate_instant_rug_first[OF g2, unfolded v2]
  from f1 have a1: "c_volume (res_data r1 ! 0) = 125000" by simp
  from f2 have a2: "c_volume (res_data r2 ! 0) = 112500" by simp
  from f1 have c1: "c_close (res_data r1 ! 0) = 101000" by simp
  from f2 have c2: "c_close (res_data r2 ! 0) = 101000" by simp
  from f1 have h1: "c_high (res_data r1 ! 0) = 101000 + 1/2 * 1000" unfolding c1 by simp
  from f2 have h2: "c_high (res_data r2 ! 0) = 101000 + 1/4 * 1000" unfolding c2 by simp
  have s: "rng halfWorld = rng quarterNoiseWorld" by (simp add: halfWorld_def quarterNoiseWorld_def)
  from a1 a2 have ne: "res_data r1 \<noteq> res_data r2" by auto
  from g1 g2 a1 a2 h1 h2 s ne show ?thesis by simp
qed

lemma organicCandle_low: "mcap * 0.9 \<le> c_low (organicCandle this mcap ch r1 r2 r3 g2 v)"
  by (simp add: organicCandle_def Let_def)

lemma organicCandle_low_scaled:
  "mcap * 9 \<le> c_low (organicCandle this mcap ch r1 r2 r3 g2 v) * 10"
  using organicCandle_low[of mcap this ch r1 r2 r3 g2 v] by simp

lemma organicCandle_close:
  "c_close (organicCandle this mcap ch r1 r2 r3 g2 v)
     = (if mcap * (1 + ch) > BONDING_MCAP this then BONDING_MCAP this else mcap * (1 + ch))"
  by (simp add: organicCandle_def Let_def)

lemma organicBody_first:
  assumes "noZero (rng st)"
    and "ch = organicChange this vol i (currentMcap st)
                (sqrt (- 2 * ln (val (shd (rng st)))) * cos (2 * pi * val (shd (stl (rng st)))))"
  shows "\<exists>c st'. organicBody this vol i st = Some (c, st')
       \<and> c_open c = currentMcap st
       \<and> c_close c = (if currentMcap st * (1 + ch) > BONDING_MCAP this then BONDING_MCAP this
                        else currentMcap st * (1 + ch))
       \<and> currentMcap st * 0.9 \<le> c_low c"
  using assms(1) unfolding organicBody_def assms(2)
  by (simp add: Let_def gaussianRandom_noZero nextRng_def noZero_stl organicCandle_close
        organicCandle_low_scaled)

lemma generateOrganic_hd:
  assumes g: "generateOrganic this start n vol w = Some (cs, w')" and n: "0 < n"
    and nz: "noZero (rng w)"
    and ch: "ch = organicChange this
          (lookupOr [(''low'', 0.012), (''medium'', 0.02), (''high'', 0.03), (''extreme'', 0.04)] vol 0.02)
          0 start
          (sqrt (- 2 * ln (val (shd (rng w)))) * cos (2 * pi * val (shd (stl (rng w)))))"
  shows "cs \<noteq> [] \<and> c_open (hd cs) = start
       \<and> c_close (hd cs) = (if start * (1 + ch) > BONDING_MCAP this then BONDING_MCAP this
                             else start * (1 + ch))
       \<and> start * 0.9 \<le> c_low (hd cs)"
proof -
  let ?v = "lookupOr [(''low'', 0.012), (''medium'', 0.02), (''high'', 0.03), (''extreme'', 0.04)] vol 0.02"
  define st0 :: volState where
    "st0 = \<lparr>rng = rng w, mathRandom = mathRandom w, currentMcap = start,
            volumeAvg = mean [80000, 120000]\<rparr>"
  from g obtain st where
    l: "forLoop (organicBody this ?v) (nat n) st0 = Some (cs, st)"
    unfolding generateOrganic_def st0_def
    by (auto simp: Let_def split: option.splits prod.splits)
  from forLoop_first[OF l] n obtain c st1 where
    b: "organicBody this ?v 0 st0 = Some (c, st1)" and ne: "cs \<noteq> []" and h: "hd cs = c"
    by auto
  have nz0: "noZero (rng st0)" using nz by (simp add: st0_def)
  have ch0: "ch = organicChange this ?v 0 (currentMcap st0)
                (sqrt (- 2 * ln (val (shd (rng st0)))) * cos (2 * pi * val (shd (stl (rng st0)))))"
    by (simp add: ch st0_def)
  from organicBody_first[OF nz0 ch0] b h ne show ?thesis
    by (auto simp: st0_def)
qed

lemma gauss_low: "sqrt (- 2 * ln (1 / 1024)) * cos (2 * pi * (1/2)) < - (31/10)"
proof -
  have c: "cos (2 * pi * (1/2)) = - 1" by simp
  have "(1024 :: real) = 2 ^ 10" by simp
  then have "ln (1 / 1024 :: real) = - (10 * ln 2)" using ln_inv_pow2[of 10] by simp
  then have l: "- 2 * ln (1 / 1024 :: real) = 20 * ln 2" by simp
  have "(31/10)\<^sup>2 < 20 * ln (2::real)" using ln2_gt_half by (simp add: power2_eq_square)
  then have "31/10 < sqrt (20 * ln 2)" by (rule real_less_rsqrt)
  then show ?thesis unfolding c l by simp
qed

text \<open>
  Claim C1 against the code. For chart type \<open>post\<close>, scenario \<open>organic\<close> and volatility
  \<open>extreme\<close>, a first Gaussian draw below -3.1 (the seeded draws 1/1024 and 1/2) moves
  the first close more than 12% under the open of 100000, while the low of the candle is
  held at 90% of the open: the low is above the close.
\<close>

theorem low_above_close:
  "generate ChartGenerator
     \<lparr>chartType = Some ''post'', scenario = Some ''organic'', volatility = Some ''extreme''\<rparr>
     0 lowWorld \<noteq> None
   \<and> c_close (res_data (fst (the (generate ChartGenerator
        \<lparr>chartType = Some ''post'', scenario = Some ''organic'', volatility = Some ''extreme''\<rparr>
        0 lowWorld))) ! 0) < 87650
   \<and> 90000 \<le> c_low (res_data (fst (the (generate ChartGenerator
        \<lparr>chartType = Some ''post'', scenario = Some ''organic'', volatility = Some ''extreme''\<rparr>
        0 lowWorld))) ! 0)
   \<and> c_open (res_data (fst (the (generate ChartGenerator
        \<lparr>chartType = Some ''post'', scenario = Some ''organic'', volatility = Some ''extreme''\<rparr>
        0 lowWorld))) ! 0) = 100000"
proof -
  let ?o = "\<lparr>chartType = Some ''post'', scenario = Some ''organic'', volatility = Some ''extreme''\<rparr>"
  let ?w = "lowWorld\<lparr>mathRandom := stl (mathRandom lowWorld)\<rparr>"
  have nz: "noZero (rng lowWorld)" by (simp add: noZero_def lowWorld_def val_mkDraw)
  from generate_total[OF nz ChartGenerator_phases, of ?o 0]
  obtain r w' where g: "generate ChartGenerator ?o 0 lowWorld = Some (r, w')" by blast
  from g obtain post where
    gp: "generatePostBonding ChartGenerator (BONDING_MCAP ChartGenerator) ''organic'' ''extreme'' ?w
           = Some (post, w')" and
    d: "res_data r = timestamped (0 div 1000) post"
    by (auto simp: generate_post)
  from randomInt_range[of 500 1500 ?w] have n: "0 < fst (randomInt 500 1500 ?w)" by simp
  from gp have go: "generateOrganic ChartGenerator 100000 (fst (randomInt 500 1500 ?w)) ''extreme''
                      (snd (randomInt 500 1500 ?w)) = Some (post, w')"
    by (simp add: generatePostBonding_def split_def Let_def ChartGenerator_def)
  have nz1: "noZero (rng (snd (randomInt 500 1500 ?w)))"
    using nz by (simp add: randomInt_rng noZero_stl)
  have v: "val (shd (rng (snd (randomInt 500 1500 ?w)))) = 1 / 1024"
      "val (shd (stl (rng (snd (randomInt 500 1500 ?w))))) = 1/2"
    by (simp_all add: randomInt_rng lowWorld_def val_mkDraw)
  define g1 where "g1 = sqrt (- 2 * ln (1 / 1024)) * cos (2 * pi * (1/2))"
  have g1: "g1 < - (31/10)" unfolding g1_def by (rule gauss_low)
  define ch where "ch = organicChange ChartGenerator
             (lookupOr [(''low'', 0.012), (''medium'', 0.02), (''high'', 0.03), (''extreme'', 0.04)]
                ''extreme'' 0.02) 0 100000 g1"
  have ch0: "ch = organicChange ChartGenerator
          (lookupOr [(''low'', 0.012), (''medium'', 0.02), (''high'', 0.03), (''extreme'', 0.04)]
             ''extreme'' 0.02)
          0 100000
          (sqrt (- 2 * ln (val (shd (rng (snd (randomInt 500 1500 ?w))))))
             * cos (2 * pi * val (shd (stl (rng (snd (randomInt 500 1500 ?w)))))))"
    unfolding v ch_def g1_def ..
  have che: "ch = g1 * 0.04 + 0.0005"
    by (simp add: ch_def organicChange_def Let_def lookupOr_def ChartGenerator_def)
  have ch: "ch < - 0.1235" using g1 by (simp add: che)
  have lt: "100000 * (1 + ch) < 87650" using ch by simp
  note f = generateOrganic_hd[OF go n nz1 ch0]
  from f have ne: "post \<noteq> []" by simp
  from f lt have cl: "c_close (hd post) < 87650" by (simp add: ChartGenerator_def)
  from f have lo: "90000 \<le> c_low (hd post)" by simp
  from f have op: "c_open (hd post) = 100000" by simp
  from first_timestamped[OF ne, of "0 div 1000"] cl lo op d g show ?thesis by simp
qed


end
